theory Spec2Isabelle
  imports Complex_Main
begin

text \<open>
  A model of the player core of the Zelda-like browser demo: the collision query of
  \<open>js/core.js\<close>, the per-frame player update, the attack with its timer callbacks and the
  damage to the player of \<open>js/main.js\<close>, and the target lock toggle of the camera module.
  Each function of the source is a function on an explicit engine state; the theorems
  follow the definitions and the example states.
\<close>

section \<open>Numbers and vectors\<close>

text \<open>
  The engine computes with JavaScript numbers. They are modelled as real numbers with exact
  arithmetic: rounding, infinities and NaN are outside the model. A \<open>THREE.Vector3\<close> is a
  triple of numbers; the operations below are the ones of the renderer library (three.js
  r128, loaded by the page) that the player, camera and collision code call.
\<close>

datatype vec3 = Vector3 (vx: real) (vy: real) (vz: real)

definition add :: "vec3 \<Rightarrow> vec3 \<Rightarrow> vec3" where
  "add a b = Vector3 (vx a + vx b) (vy a + vy b) (vz a + vz b)"

definition sub :: "vec3 \<Rightarrow> vec3 \<Rightarrow> vec3" where
  "sub a b = Vector3 (vx a - vx b) (vy a - vy b) (vz a - vz b)"

definition multiplyScalar :: "vec3 \<Rightarrow> real \<Rightarrow> vec3" where
  "multiplyScalar a k = Vector3 (vx a * k) (vy a * k) (vz a * k)"

definition dot :: "vec3 \<Rightarrow> vec3 \<Rightarrow> real" where
  "dot a b = vx a * vx b + vy a * vy b + vz a * vz b"

definition lengthSq :: "vec3 \<Rightarrow> real" where
  "lengthSq a = vx a * vx a + vy a * vy a + vz a * vz a"

definition length_v :: "vec3 \<Rightarrow> real" where
  "length_v a = sqrt (vx a * vx a + vy a * vy a + vz a * vz a)"

text \<open>\<open>normalize\<close> divides by \<open>length() || 1\<close>: the zero vector stays as it is.\<close>

definition normalize_v :: "vec3 \<Rightarrow> vec3" where
  "normalize_v a =
     (if length_v a = 0 then a
      else Vector3 (vx a / length_v a) (vy a / length_v a) (vz a / length_v a))"

definition crossVectors :: "vec3 \<Rightarrow> vec3 \<Rightarrow> vec3" where
  "crossVectors a b =
     Vector3 (vy a * vz b - vz a * vy b) (vz a * vx b - vx a * vz b) (vx a * vy b - vy a * vx b)"

definition distanceTo :: "vec3 \<Rightarrow> vec3 \<Rightarrow> real" where
  "distanceTo a b =
     sqrt ((vx a - vx b) * (vx a - vx b) + (vy a - vy b) * (vy a - vy b)
           + (vz a - vz b) * (vz a - vz b))"

text \<open>\<open>a.angleTo(b)\<close>: a right angle when either vector is zero, else the arc cosine of
  the clamped normalised dot product.\<close>

definition angleTo :: "vec3 \<Rightarrow> vec3 \<Rightarrow> real" where
  "angleTo a b =
     (let denominator = sqrt (lengthSq a * lengthSq b)
      in if denominator = 0 then pi / 2
         else arccos (max (- 1) (min 1 (dot a b / denominator))))"

text \<open>\<open>v.applyEuler(new THREE.Euler(0, yaw, 0))\<close>: a rotation about the vertical axis.\<close>

definition applyEulerY :: "vec3 \<Rightarrow> real \<Rightarrow> vec3" where
  "applyEulerY v yaw =
     Vector3 (vx v * cos yaw + vz v * sin yaw) (vy v) (vz v * cos yaw - vx v * sin yaw)"

text \<open>\<open>v.y = 0\<close> on a vector ("keep on horizontal plane").\<close>

definition setY :: "vec3 \<Rightarrow> real \<Rightarrow> vec3" where
  "setY v h = Vector3 (vx v) h (vz v)"

definition setX :: "vec3 \<Rightarrow> real \<Rightarrow> vec3" where
  "setX v h = Vector3 h (vy v) (vz v)"

definition setZ :: "vec3 \<Rightarrow> real \<Rightarrow> vec3" where
  "setZ v h = Vector3 (vx v) (vy v) h"

text \<open>
  The orientation of an object (its quaternion) is only ever read by rotating a vector on
  the local Z axis (\<open>new THREE.Vector3(0, 0, c).applyQuaternion(q)\<close>), which gives \<open>c\<close>
  times the image of the unit Z vector. The model keeps that image, \<open>facing\<close>, in place of
  the quaternion. \<open>obj.lookAt(target)\<close> of an object without a rotated parent makes the
  local Z axis point from the object's position to the target: the library takes the
  difference, replaces a zero difference by the Z axis, normalises, and when the result is
  parallel to the up vector (0, 1, 0) nudges its Z component by 0.0001 and normalises again.
\<close>

definition lookAt :: "vec3 \<Rightarrow> vec3 \<Rightarrow> vec3" where
  "lookAt pos target =
     (let z0 = sub target pos;
          z1 = normalize_v (if lengthSq z0 = 0 then setZ z0 1 else z0)
      in if lengthSq (crossVectors (Vector3 0 1 0) z1) = 0
         then normalize_v (setZ z1 (vz z1 + 0.0001))
         else z1)"

section \<open>Game state\<close>

text \<open>
  A collidable is the descriptor pushed by the scenery code: a type tag, an optional
  explicit position, the scene object (of which only the position is read), and a radius
  or a box size. The record carries both \<open>cradius\<close> and \<open>csize\<close>; each kind reads its own.
\<close>

record collidable =
  ctype :: string
  cposition :: "vec3 option"
  cobject :: "vec3 option"
  cradius :: real
  csize :: vec3

record object3d =
  position :: vec3
  facing :: vec3

record player = object3d +
  velocity :: vec3
  onGround :: bool
  speed :: real
  jumpHeight :: real
  isAttacking :: bool
  radius :: real

record enemy = object3d +
  health :: real

record keys =
  k_forward :: bool
  k_backward :: bool
  k_left :: bool
  k_right :: bool
  k_jump :: bool

text \<open>
  Enemies are objects shared between the \<open>enemies\<close> array, the lock target and pending
  timer callbacks, so the state keeps them in a store indexed by reference; the array and
  \<open>currentTarget\<close> hold references. The constructor creates the player before any frame,
  key handler or timer can run, so \<open>player\<close> is always present.
\<close>

record engine =
  player :: player
  playerHealth :: real
  enemies :: "nat list"
  objects :: "nat \<Rightarrow> enemy"
  collidables :: "collidable list"
  targetLocked :: bool
  currentTarget :: "nat option"
  keys :: keys
  cameraRotationY :: real
  cameraPosition :: vec3

section \<open>Collision world (core.js)\<close>

text \<open>\<open>collidable.position || collidable.object.position\<close>, with \<open>None\<close> for the descriptors
  the loop skips (neither a position nor an object).\<close>

definition collidablePosition :: "collidable \<Rightarrow> vec3 option" where
  "collidablePosition c = (case cposition c of Some q \<Rightarrow> Some q | None \<Rightarrow> cobject c)"

text \<open>The loop of \<open>checkCollision\<close> over the collidables, for a player of radius \<open>r\<close>.\<close>

fun checkCollidables :: "real \<Rightarrow> collidable list \<Rightarrow> vec3 \<Rightarrow> bool" where
  "checkCollidables r [] pos = False"
| "checkCollidables r (c # cs) pos =
     (case collidablePosition c of
        None \<Rightarrow> checkCollidables r cs pos
      | Some q \<Rightarrow>
          if ctype c = ''tree'' \<or> ctype c = ''sign'' \<or> ctype c = ''rock'' then
            (let dx = vx pos - vx q;
                 dz = vz pos - vz q;
                 distance = sqrt (dx * dx + dz * dz);
                 adjustedRadius = cradius c * 0.8
             in if distance < r + adjustedRadius then True
                else checkCollidables r cs pos)
          else if ctype c = ''house'' then
            (let minX = vx q - vx (csize c) / 2 - r;
                 maxX = vx q + vx (csize c) / 2 + r;
                 minZ = vz q - vz (csize c) / 2 - r;
                 maxZ = vz q + vz (csize c) / 2 + r
             in if vx pos > minX \<and> vx pos < maxX \<and> vz pos > minZ \<and> vz pos < maxZ then True
                else checkCollidables r cs pos)
          else checkCollidables r cs pos)"

definition checkCollision :: "engine \<Rightarrow> vec3 \<Rightarrow> bool" where
  "checkCollision s pos =
     (if vy pos > 3.0 then False
      else checkCollidables (radius (player s)) (collidables s) pos)"

section \<open>Locomotion (Player.update in main.js)\<close>

text \<open>
  \<open>update\<close> is modelled block by block, in the order of the source: the movement basis
  (which in target-locked mode also turns the player to the target), the direction
  accumulated from the held keys, the move with its collision fallbacks and the facing that
  follows it, the jump, and gravity. The walk animation, the body bob and the footstep dust
  only touch the display and are left out, and so is the guard on a missing player, which
  never fires once the world is set up.
\<close>

definition movementBasis :: "engine \<Rightarrow> vec3 \<times> vec3 \<times> engine" where
  "movementBasis s =
     (case (targetLocked s, currentTarget s) of
        (True, Some t) \<Rightarrow>
          (let p = player s;
               targetDirection = setY (normalize_v (sub (position (objects s t)) (position p))) 0;
               forward = targetDirection;
               right = normalize_v (crossVectors (Vector3 0 1 0) forward);
               lookAtTarget = add (position p) targetDirection
           in (forward, right, s\<lparr>player := p\<lparr>facing := lookAt (position p) lookAtTarget\<rparr>\<rparr>))
      | _ \<Rightarrow>
          (applyEulerY (Vector3 0 0 (- 1)) (cameraRotationY s),
           applyEulerY (Vector3 1 0 0) (cameraRotationY s), s))"

definition inputDirection :: "keys \<Rightarrow> vec3 \<Rightarrow> vec3 \<Rightarrow> vec3" where
  "inputDirection k forward right =
     (let d0 = Vector3 0 0 0;
          d1 = (if k_forward k then add d0 forward else d0);
          d2 = (if k_backward k then sub d1 forward else d1);
          d3 = (if k_right k then add d2 right else d2)
      in if k_left k then sub d3 right else d3)"

text \<open>The fallback chain: full move, slide along X, slide along Z, step up by 0.1, else
  stay. The result is the position the player is given.\<close>

definition resolveMovement :: "engine \<Rightarrow> vec3 \<Rightarrow> vec3" where
  "resolveMovement s newPosition =
     (if \<not> checkCollision s newPosition then newPosition
      else
        (let slideX = setX (position (player s)) (vx newPosition)
         in if \<not> checkCollision s slideX then slideX
            else
              (let slideZ = setZ (position (player s)) (vz newPosition)
               in if \<not> checkCollision s slideZ then slideZ
                  else
                    (let elevatedPosition = setY newPosition (vy newPosition + 0.1)
                     in if \<not> checkCollision s elevatedPosition then elevatedPosition
                        else position (player s)))))"

definition movePlayer :: "engine \<Rightarrow> vec3 \<Rightarrow> real \<Rightarrow> engine" where
  "movePlayer s playerDirection deltaTime =
     (if length_v playerDirection > 0 then
        (let step = multiplyScalar (normalize_v playerDirection) (speed (player s) * deltaTime);
             newPosition = add (position (player s)) step;
             p1 = (player s)\<lparr>position := resolveMovement s newPosition\<rparr>;
             p2 = (if \<not> targetLocked s
                   then p1\<lparr>facing := lookAt (position p1) (add (position p1) (normalize_v step))\<rparr>
                   else p1)
         in s\<lparr>player := p2\<rparr>)
      else s)"

definition applyJump :: "engine \<Rightarrow> engine" where
  "applyJump s =
     (if k_jump (keys s) \<and> onGround (player s) then
        s\<lparr>player := (player s)\<lparr>velocity := setY (velocity (player s)) (jumpHeight (player s)),
                                onGround := False\<rparr>\<rparr>
      else s)"

definition applyGravity :: "engine \<Rightarrow> real \<Rightarrow> engine" where
  "applyGravity s deltaTime =
     (if \<not> onGround (player s) then
        (let p = player s;
             v1 = setY (velocity p) (vy (velocity p) - 9.8 * deltaTime);
             pos1 = setY (position p) (vy (position p) + vy v1 * deltaTime)
         in if vy pos1 \<le> 1.0
            then s\<lparr>player := p\<lparr>position := setY pos1 1.0, velocity := setY v1 0,
                                 onGround := True\<rparr>\<rparr>
            else s\<lparr>player := p\<lparr>position := pos1, velocity := v1\<rparr>\<rparr>)
      else s)"

definition update :: "engine \<Rightarrow> real \<Rightarrow> engine" where
  "update s deltaTime =
     (case movementBasis s of
        (forward, right, s1) \<Rightarrow>
          applyGravity
            (applyJump (movePlayer s1 (inputDirection (keys s1) forward right) deltaTime))
            deltaTime)"

text \<open>Frames of the render loop as far as the player is concerned: the key handlers set the
  held keys, then \<open>update\<close> runs with the frame's time step.\<close>

fun frames :: "engine \<Rightarrow> (keys \<times> real) list \<Rightarrow> engine" where
  "frames s [] = s"
| "frames s ((k, deltaTime) # rest) = frames (update (s\<lparr>keys := k\<rparr>) deltaTime) rest"

section \<open>Target lock (Camera.toggleTargetLock)\<close>

text \<open>The scan for the closest enemy: \<open>closestDistance\<close> starts at \<open>Infinity\<close>, here
  \<open>None\<close>.\<close>

fun findClosest :: "engine \<Rightarrow> nat list \<Rightarrow> nat option \<times> real option \<Rightarrow> nat option \<times> real option"
  where
  "findClosest s [] acc = acc"
| "findClosest s (e # es) (closestEnemy, closestDistance) =
     (let distance = distanceTo (position (player s)) (position (objects s e))
      in if (case closestDistance of None \<Rightarrow> True | Some c \<Rightarrow> distance < c) \<and> distance < 15
         then findClosest s es (Some e, Some distance)
         else findClosest s es (closestEnemy, closestDistance))"

definition toggleTargetLock :: "engine \<Rightarrow> engine" where
  "toggleTargetLock s =
     (if enemies s = [] then s
      else if \<not> targetLocked s then
        (case fst (findClosest s (enemies s) (None, None)) of
           Some t \<Rightarrow>
             (let p = player s;
                  targetDirection =
                    setY (normalize_v (sub (position (objects s t)) (position p))) 0;
                  targetPosition = add (position p) targetDirection
              in s\<lparr>currentTarget := Some t, targetLocked := True,
                    player := p\<lparr>facing := lookAt (position p) targetPosition\<rparr>\<rparr>)
         | None \<Rightarrow> s)
      else s\<lparr>targetLocked := False, currentTarget := None\<rparr>)"

section \<open>Attack (Player.attack)\<close>

text \<open>
  \<open>attack\<close> schedules its work: the hit detection runs from a 200 ms timeout, the swing
  animation from animation frames, the removal of a defeated enemy from a 100 ms timeout
  set by the hit detection. Each callback is a function on the state, and a function that
  schedules returns what it scheduled. Callbacks that only recolour or hide display
  objects are left out.
\<close>

datatype callback = HitDetection | AnimateSwordSwing real | RemoveEnemy nat

datatype scheduled = SetTimeout callback real | RequestAnimationFrame callback

text \<open>\<open>now\<close> is \<open>performance.now()\<close> at the call, the start time of the swing.\<close>

definition attack :: "real \<Rightarrow> engine \<Rightarrow> engine \<times> scheduled list" where
  "attack now s =
     (if isAttacking (player s) then (s, [])
      else
        (let p1 = (player s)\<lparr>isAttacking := True\<rparr>;
             p2 = (case (targetLocked s, currentTarget s) of
                     (True, Some t) \<Rightarrow>
                       (let targetDirection =
                              setY (normalize_v (sub (position (objects s t)) (position p1))) 0;
                            lookAtPosition = add (position p1) targetDirection
                        in p1\<lparr>facing := lookAt (position p1) lookAtPosition\<rparr>)
                   | _ \<Rightarrow> p1)
         in (s\<lparr>player := p2\<rparr>,
             [SetTimeout HitDetection 200, RequestAnimationFrame (AnimateSwordSwing now)])))"

text \<open>One frame of the swing animation, started at \<open>startTime\<close>, at time \<open>timestamp\<close>.\<close>

definition animateSwordSwing :: "real \<Rightarrow> real \<Rightarrow> engine \<Rightarrow> engine \<times> scheduled list" where
  "animateSwordSwing startTime timestamp s =
     (if \<not> isAttacking (player s) then (s, [])
      else
        (let elapsed = timestamp - startTime;
             progress = min (elapsed / 400) 1
         in if progress < 1 then (s, [RequestAnimationFrame (AnimateSwordSwing startTime)])
            else (s\<lparr>player := (player s)\<lparr>isAttacking := False\<rparr>\<rparr>, [])))"

text \<open>The hit test of one enemy, with the names of the source.\<close>

definition swordHits :: "engine \<Rightarrow> nat \<Rightarrow> bool" where
  "swordHits s e =
     (let p = player s;
          enemy = objects s e;
          distanceToEnemy = distanceTo (position p) (position enemy);
          toEnemy = setY (normalize_v (sub (position enemy) (position p))) 0;
          forward = facing p;
          angleToEnemy = angleTo forward toEnemy;
          inAttackAngle = (angleToEnemy < pi / 4);
          attackRange = (if targetLocked s \<and> currentTarget s = Some e then 3.0 else 2.0);
          swordTip = add (multiplyScalar (facing p) 1.5) (position p);
          swordDistance = distanceTo (position enemy) swordTip
      in (targetLocked s \<and> currentTarget s = Some e \<and> distanceToEnemy < attackRange)
         \<or> (distanceToEnemy < attackRange \<and> inAttackAngle)
         \<or> swordDistance < 1.5)"

text \<open>The body of the loop over the enemies: damage, knockback, height clamp, and the
  removal timeout when the health has reached zero.\<close>

definition strike :: "engine \<Rightarrow> nat \<Rightarrow> engine \<times> scheduled list" where
  "strike s e =
     (if swordHits s e then
        (let p = player s;
             enemy = objects s e;
             health1 = health enemy - 1;
             knockbackDirection =
               multiplyScalar (setY (normalize_v (sub (position enemy) (position p))) 0) 1;
             position1 = Vector3 (vx (position enemy) + vx knockbackDirection)
                                 (max (vy (position enemy)) 0.8)
                                 (vz (position enemy) + vz knockbackDirection);
             health2 = max 0 health1
         in (s\<lparr>objects := (objects s)(e := enemy\<lparr>position := position1, health := health2\<rparr>)\<rparr>,
             if health2 \<le> 0 then [SetTimeout (RemoveEnemy e) 100] else []))
      else (s, []))"

fun strikeAll :: "nat list \<Rightarrow> engine \<Rightarrow> engine \<times> scheduled list" where
  "strikeAll [] s = (s, [])"
| "strikeAll (e # es) s =
     (case strike s e of
        (s1, t1) \<Rightarrow> (case strikeAll es s1 of (s2, t2) \<Rightarrow> (s2, t1 @ t2)))"

definition hitDetection :: "engine \<Rightarrow> engine \<times> scheduled list" where
  "hitDetection s = strikeAll (enemies s) s"

text \<open>The removal timeout: \<open>indexOf\<close> and \<open>splice\<close> take the first occurrence out of the
  array, then the lock is cleared if it is on this enemy.\<close>

definition removeEnemy :: "nat \<Rightarrow> engine \<Rightarrow> engine" where
  "removeEnemy e s =
     (let s1 = s\<lparr>enemies := remove1 e (enemies s)\<rparr>
      in if currentTarget s1 = Some e
         then s1\<lparr>currentTarget := None, targetLocked := False\<rparr>
         else s1)"

section \<open>Damage to the player (Player.takeDamage)\<close>

text \<open>
  On death the source lays the player down by setting the Euler angle \<open>rotation.x\<close>. What
  that does to the facing axis is computed by the library's angle conversion; it is the
  parameter \<open>fallOver\<close> here. The blinking and the game-over alert are display only.
\<close>

definition takeDamage :: "(vec3 \<Rightarrow> vec3) \<Rightarrow> engine \<Rightarrow> real \<Rightarrow> engine" where
  "takeDamage fallOver s amount =
     (let s1 = s\<lparr>playerHealth := max 0 (playerHealth s - amount)\<rparr>;
          p = player s1;
          source = (case currentTarget s1 of Some t \<Rightarrow> position (objects s1 t)
                    | None \<Rightarrow> cameraPosition s1);
          knockbackDirection =
            setY (multiplyScalar (normalize_v (sub (position p) source)) 2) 1;
          p1 = p\<lparr>position := add (position p) knockbackDirection\<rparr>;
          p2 = (if playerHealth s1 \<le> 0 then p1\<lparr>facing := fallOver (facing p1)\<rparr> else p1)
      in s1\<lparr>player := p2\<rparr>)"

section \<open>Example states\<close>

text \<open>A small world in the layout of the scenery code: the player as created (radius 0.3,
  speed 5), a tree of radius 0.8 at (5, 0, 15) and the 6 by 5 house at (-20, 0, 15).\<close>

definition player0 :: player where
  "player0 = \<lparr>position = Vector3 5 1 5, facing = Vector3 0 0 1, velocity = Vector3 0 0 0,
     onGround = True, speed = 5, jumpHeight = 5, isAttacking = False, radius = 0.3\<rparr>"

definition tree0 :: collidable where
  "tree0 = \<lparr>ctype = ''tree'', cposition = Some (Vector3 5 0 15),
     cobject = Some (Vector3 5 0 15), cradius = 0.8, csize = Vector3 0 0 0\<rparr>"

definition house0 :: collidable where
  "house0 = \<lparr>ctype = ''house'', cposition = Some (Vector3 (- 20) 0 15),
     cobject = Some (Vector3 (- 20) 0 15), cradius = 0, csize = Vector3 6 3 5\<rparr>"

definition enemy0 :: enemy where
  "enemy0 = \<lparr>position = Vector3 5 1 6, facing = Vector3 0 0 1, health = 2\<rparr>"

definition keys0 :: keys where
  "keys0 = \<lparr>k_forward = False, k_backward = False, k_left = False, k_right = False,
     k_jump = False\<rparr>"

definition engine0 :: engine where
  "engine0 = \<lparr>player = player0, playerHealth = 3, enemies = [0], objects = (\<lambda>_. enemy0),
     collidables = [tree0, house0], targetLocked = False, currentTarget = None,
     keys = keys0, cameraRotationY = 0, cameraPosition = Vector3 5 4 10\<rparr>"

text \<open>The same world in the middle of a sword swing.\<close>

definition engine_attacking :: engine where
  "engine_attacking = engine0\<lparr>player := player0\<lparr>isAttacking := True\<rparr>\<rparr>"

text \<open>A set lock with no enemy left in the array, a lock on the enemy of the array, and
  the latter with the enemy down to its last health point.\<close>

definition engine_stale_lock :: engine where
  "engine_stale_lock = engine0\<lparr>enemies := [], targetLocked := True, currentTarget := Some 0\<rparr>"

definition engine_locked :: engine where
  "engine_locked = engine0\<lparr>targetLocked := True, currentTarget := Some 0\<rparr>"

definition engine_last_hit :: engine where
  "engine_last_hit = engine0\<lparr>targetLocked := True, currentTarget := Some 0,
     objects := (\<lambda>_. enemy0\<lparr>health := 1\<rparr>)\<rparr>"

text \<open>The player just south of the house wall, locked on an enemy at offset (3, 0, 4),
  holding the forward key: the move is diagonal, into the wall.\<close>

definition engine_slide :: engine where
  "engine_slide = engine0\<lparr>
     player := player0\<lparr>position := Vector3 (- 20) 1 (243 / 20)\<rparr>,
     objects := (\<lambda>_. enemy0\<lparr>position := Vector3 (- 17) 1 (323 / 20)\<rparr>),
     collidables := [house0], targetLocked := True, currentTarget := Some 0,
     keys := keys0\<lparr>k_forward := True\<rparr>\<rparr>"

text \<open>A grounded player inside the house footprint at height 3.0, and one at ground
  level in the open, both walking forward.\<close>

definition engine_step :: engine where
  "engine_step = engine0\<lparr>
     player := player0\<lparr>position := Vector3 (- 20) 3 15\<rparr>,
     collidables := [house0], keys := keys0\<lparr>k_forward := True\<rparr>\<rparr>"

definition engine_walk :: engine where
  "engine_walk = engine0\<lparr>collidables := [house0], keys := keys0\<lparr>k_forward := True\<rparr>\<rparr>"

text \<open>Two enemies at distances 20 and 5, and a single enemy at distance 20.\<close>

definition engine_two :: engine where
  "engine_two = engine0\<lparr>enemies := [0, 1],
     objects := (\<lambda>_. enemy0\<lparr>position := Vector3 5 1 25\<rparr>)
                  (1 := enemy0\<lparr>position := Vector3 8 1 9\<rparr>)\<rparr>"

definition engine_far :: engine where
  "engine_far = engine0\<lparr>objects := (\<lambda>_. enemy0\<lparr>position := Vector3 5 1 25\<rparr>)\<rparr>"

text \<open>The player in the air, 2.4 above the enemy that is one unit ahead in the plane.\<close>

definition engine_above :: engine where
  "engine_above =
     engine0\<lparr>player := player0\<lparr>position := Vector3 5 (17 / 5) 5, onGround := False\<rparr>\<rparr>"

section \<open>Collision containment\<close>

lemma sqrt_less_iff: "0 < b \<Longrightarrow> sqrt a < b \<longleftrightarrow> a < b * b"
proof -
  assume b: "0 < b"
  have "sqrt a < sqrt (b * b) \<longleftrightarrow> a < b * b"
    by (rule real_sqrt_less_iff)
  with b show ?thesis by simp
qed

lemma checkCollidables_iff:
  "checkCollidables r cs pos \<longleftrightarrow>
     (\<exists>c \<in> set cs. \<exists>q. collidablePosition c = Some q \<and>
        ((ctype c = ''tree'' \<or> ctype c = ''sign'' \<or> ctype c = ''rock'') \<and>
           sqrt ((vx pos - vx q) * (vx pos - vx q) + (vz pos - vz q) * (vz pos - vz q))
             < r + cradius c * 0.8
         \<or> ctype c = ''house'' \<and>
           vx q - vx (csize c) / 2 - r < vx pos \<and> vx pos < vx q + vx (csize c) / 2 + r \<and>
           vz q - vz (csize c) / 2 - r < vz pos \<and> vz pos < vz q + vz (csize c) / 2 + r))"
proof (induction cs)
  case Nil
  show ?case by simp
next
  case (Cons c cs)
  show ?case
  proof (cases "collidablePosition c")
    case None
    with Cons show ?thesis by simp
  next
    case (Some q)
    with Cons show ?thesis by (auto simp: Let_def)
  qed
qed

text \<open>
  C1. A candidate position above height 3.0 is never blocked. At height 3.0 or below the
  position is blocked exactly when some collidable with a position is hit: a tree, sign or
  rock when the planar X/Z distance to it is less than the player radius plus 0.8 times its
  radius, a house when X and Z both lie strictly inside its box widened by the player
  radius on each side.
\<close>

theorem checkCollision_containment:
  "(vy pos > 3 \<longrightarrow> \<not> checkCollision s pos) \<and>
   (vy pos \<le> 3 \<longrightarrow>
      (checkCollision s pos \<longleftrightarrow>
        (\<exists>c \<in> set (collidables s). \<exists>q. collidablePosition c = Some q \<and>
           ((ctype c = ''tree'' \<or> ctype c = ''sign'' \<or> ctype c = ''rock'') \<and>
              sqrt ((vx pos - vx q) * (vx pos - vx q) + (vz pos - vz q) * (vz pos - vz q))
                < radius (player s) + cradius c * 0.8
            \<or> ctype c = ''house'' \<and>
              vx q - vx (csize c) / 2 - radius (player s) < vx pos \<and>
              vx pos < vx q + vx (csize c) / 2 + radius (player s) \<and>
              vz q - vz (csize c) / 2 - radius (player s) < vz pos \<and>
              vz pos < vz q + vz (csize c) / 2 + radius (player s)))))"
  unfolding checkCollision_def
  by (simp add: checkCollidables_iff)

theorem checkCollision_containment_witness:
  "checkCollision engine0 (Vector3 5 1 (31 / 2)) \<and>
   \<not> checkCollision engine0 (Vector3 5 1 17) \<and>
   checkCollision engine0 (Vector3 (- 23) 1 (35 / 2)) \<and>
   \<not> checkCollision engine0 (Vector3 5 4 (31 / 2))"
  using checkCollision_containment [of "Vector3 5 1 (31 / 2)" engine0]
    checkCollision_containment [of "Vector3 5 1 17" engine0]
    checkCollision_containment [of "Vector3 (- 23) 1 (35 / 2)" engine0]
    checkCollision_containment [of "Vector3 5 4 (31 / 2)" engine0]
  by (simp add: engine0_def player0_def tree0_def house0_def collidablePosition_def
      real_sqrt_divide)

section \<open>Player damage\<close>

text \<open>
  C10. After \<open>takeDamage\<close> the player's health is the maximum of 0 and the previous health
  minus the amount, so it is never negative, whatever the amount.
\<close>

theorem takeDamage_health_floor:
  "playerHealth (takeDamage fallOver s amount) = max 0 (playerHealth s - amount) \<and>
   0 \<le> playerHealth (takeDamage fallOver s amount)"
  by (simp add: takeDamage_def Let_def)

theorem takeDamage_health_floor_witness:
  "playerHealth (takeDamage (\<lambda>v. v) engine0 5) = 0 \<and>
   playerHealth (takeDamage (\<lambda>v. v) engine0 1) = 2"
  using takeDamage_health_floor [of "\<lambda>v. v" engine0 5]
    takeDamage_health_floor [of "\<lambda>v. v" engine0 1]
  by (simp add: engine0_def)

text \<open>The knockback of a hit always lifts the player by one unit and leaves the grounded
  flag alone, so a grounded player is left standing in the air.\<close>

lemma takeDamage_lifts:
  "vy (position (player (takeDamage fallOver s amount))) = vy (position (player s)) + 1 \<and>
   onGround (player (takeDamage fallOver s amount)) = onGround (player s)"
  by (simp add: takeDamage_def Let_def add_def setY_def)

section \<open>Attack guard\<close>

text \<open>
  C8. While the attacking flag is set, \<open>attack\<close> returns the state as it was and schedules
  nothing: no new swing animation, no second hit detection.
\<close>

theorem attack_guard:
  "isAttacking (player s) \<Longrightarrow> attack now s = (s, [])"
  by (simp add: attack_def)

theorem attack_guard_witness:
  "isAttacking (player engine_attacking) \<and> attack 1000 engine_attacking = (engine_attacking, [])"
  using attack_guard [of engine_attacking 1000]
  by (simp add: engine_attacking_def)

section \<open>Releasing the target lock\<close>

text \<open>
  C4, as stated, fails: with the lock set and an empty enemy array the guard at the top of
  \<open>toggleTargetLock\<close> returns before the lock is looked at, and the lock stays.
\<close>

theorem toggleTargetLock_locked_counterexample:
  "targetLocked engine_stale_lock \<and>
   targetLocked (toggleTargetLock engine_stale_lock) \<and>
   currentTarget (toggleTargetLock engine_stale_lock) = Some 0"
  by (simp add: engine_stale_lock_def toggleTargetLock_def)

text \<open>
  C4, amended. In a locked state with a non-empty enemy array \<open>toggleTargetLock\<close> clears
  the lock: afterwards \<open>targetLocked\<close> is false and \<open>currentTarget\<close> is null. With an empty
  enemy array it changes nothing.
\<close>

theorem toggleTargetLock_locked:
  "targetLocked s \<Longrightarrow>
     (enemies s \<noteq> [] \<longrightarrow>
        toggleTargetLock s = s\<lparr>targetLocked := False, currentTarget := None\<rparr> \<and>
        \<not> targetLocked (toggleTargetLock s) \<and> currentTarget (toggleTargetLock s) = None) \<and>
     (enemies s = [] \<longrightarrow> toggleTargetLock s = s)"
  by (simp add: toggleTargetLock_def)

theorem toggleTargetLock_locked_witness:
  "targetLocked engine_locked \<and> enemies engine_locked \<noteq> [] \<and>
   \<not> targetLocked (toggleTargetLock engine_locked) \<and>
   currentTarget (toggleTargetLock engine_locked) = None"
  using toggleTargetLock_locked [of engine_locked]
  by (simp add: engine_locked_def engine0_def)

section \<open>Hit detection and enemy removal\<close>

lemma strike_frame:
  "player (fst (strike s e)) = player s"
  "targetLocked (fst (strike s e)) = targetLocked s"
  "currentTarget (fst (strike s e)) = currentTarget s"
  "enemies (fst (strike s e)) = enemies s"
  "e' \<noteq> e \<Longrightarrow> objects (fst (strike s e)) e' = objects s e'"
  by (simp_all add: strike_def Let_def)

lemma strike_hit:
  "swordHits s e \<Longrightarrow>
   objects (fst (strike s e)) e =
     (objects s e)\<lparr>position :=
        Vector3 (vx (position (objects s e)) +
                   vx (setY (normalize_v (sub (position (objects s e)) (position (player s)))) 0))
                (max (vy (position (objects s e))) 0.8)
                (vz (position (objects s e)) +
                   vz (setY (normalize_v (sub (position (objects s e)) (position (player s)))) 0)),
        health := max 0 (health (objects s e) - 1)\<rparr> \<and>
   snd (strike s e) =
     (if max 0 (health (objects s e) - 1) \<le> 0 then [SetTimeout (RemoveEnemy e) 100] else [])"
  by (simp add: strike_def Let_def multiplyScalar_def setY_def)

lemma strike_miss:
  "\<not> swordHits s e \<Longrightarrow> strike s e = (s, [])"
  by (simp add: strike_def)

lemma swordHits_cong:
  "player s' = player s \<Longrightarrow> targetLocked s' = targetLocked s \<Longrightarrow>
   currentTarget s' = currentTarget s \<Longrightarrow> objects s' e = objects s e \<Longrightarrow>
   swordHits s' e = swordHits s e"
  by (simp add: swordHits_def)

lemma strike_cong:
  assumes "player s' = player s" "targetLocked s' = targetLocked s"
    "currentTarget s' = currentTarget s" "objects s' e = objects s e"
  shows "objects (fst (strike s' e)) e = objects (fst (strike s e)) e \<and>
   snd (strike s' e) = snd (strike s e)"
proof -
  have h: "swordHits s' e = swordHits s e" using assms by (rule swordHits_cong)
  show ?thesis
  proof (cases "swordHits s e")
    case True
    then have t': "swordHits s' e" using h by simp
    show ?thesis
      unfolding conjunct1 [OF strike_hit [OF True]] conjunct2 [OF strike_hit [OF True]]
        conjunct1 [OF strike_hit [OF t']] conjunct2 [OF strike_hit [OF t']]
      unfolding assms by simp
  next
    case False
    then have f': "\<not> swordHits s' e" using h by simp
    show ?thesis
      unfolding strike_miss [OF False] strike_miss [OF f'] using assms(4) by simp
  qed
qed

lemma strikeAll_Cons:
  "fst (strikeAll (e # es) s) = fst (strikeAll es (fst (strike s e)))"
  "snd (strikeAll (e # es) s) = snd (strike s e) @ snd (strikeAll es (fst (strike s e)))"
  by (simp_all add: case_prod_beta)

lemma strikeAll_frame:
  "player (fst (strikeAll es s)) = player s \<and>
   targetLocked (fst (strikeAll es s)) = targetLocked s \<and>
   currentTarget (fst (strikeAll es s)) = currentTarget s \<and>
   enemies (fst (strikeAll es s)) = enemies s \<and>
   (e \<notin> set es \<longrightarrow> objects (fst (strikeAll es s)) e = objects s e)"
proof (induction es arbitrary: s)
  case Nil
  show ?case by simp
next
  case (Cons a es)
  show ?case
    unfolding strikeAll_Cons using Cons [of "fst (strike s a)"]
    by (simp add: strike_frame)
qed

lemma strikeAll_member:
  "e \<in> set es \<Longrightarrow> distinct es \<Longrightarrow>
   objects (fst (strikeAll es s)) e = objects (fst (strike s e)) e \<and>
   set (snd (strike s e)) \<subseteq> set (snd (strikeAll es s))"
proof (induction es arbitrary: s)
  case Nil
  then show ?case by simp
next
  case (Cons a es)
  show ?case
  proof (cases "e = a")
    case True
    then have "e \<notin> set es" using Cons.prems by simp
    then have "objects (fst (strikeAll es (fst (strike s a)))) e = objects (fst (strike s a)) e"
      using strikeAll_frame [of es "fst (strike s a)" e] by simp
    with True show ?thesis unfolding strikeAll_Cons by simp
  next
    case False
    then have mem: "e \<in> set es" and d: "distinct es" using Cons.prems by auto
    have c: "objects (fst (strike (fst (strike s a)) e)) e = objects (fst (strike s e)) e \<and>
             snd (strike (fst (strike s a)) e) = snd (strike s e)"
      by (rule strike_cong) (simp_all add: strike_frame False)
    from Cons.IH [OF mem d, of "fst (strike s a)"] c show ?thesis
      unfolding strikeAll_Cons by auto
  qed
qed

lemma removeEnemy_clears:
  "currentTarget (removeEnemy e s) \<noteq> Some e"
  "currentTarget s = Some e \<Longrightarrow>
     \<not> targetLocked (removeEnemy e s) \<and> currentTarget (removeEnemy e s) = None"
  "distinct (enemies s) \<Longrightarrow> e \<notin> set (enemies (removeEnemy e s))"
  by (simp_all add: removeEnemy_def Let_def)

lemma attack_frame:
  "targetLocked (fst (attack now s)) = targetLocked s"
  "currentTarget (fst (attack now s)) = currentTarget s"
  "enemies (fst (attack now s)) = enemies s"
  "objects (fst (attack now s)) = objects s"
  "position (player (fst (attack now s))) = position (player s)"
  by (auto simp: attack_def Let_def split: option.splits bool.splits)

text \<open>
  C3. The player is locked on enemy \<open>e\<close>, which is in range and has at most one health
  point left. \<open>attack\<close> schedules the hit detection; the hit detection brings the enemy's
  health to 0 and schedules its removal; the removal callback takes the enemy out of the
  array and, in the same step, clears the lock: \<open>targetLocked\<close> is false and
  \<open>currentTarget\<close> is null. In whatever state the removal callback runs, the lock does
  not refer to the removed enemy afterwards.
\<close>

theorem target_lock_cleared_on_death:
  assumes "\<not> isAttacking (player s)"
    and "targetLocked s" and "currentTarget s = Some e"
    and "e \<in> set (enemies s)" and "distinct (enemies s)"
    and "distanceTo (position (player s)) (position (objects s e)) < 3"
    and "health (objects s e) \<le> 1"
  shows "SetTimeout HitDetection 200 \<in> set (snd (attack now s)) \<and>
     (let s1 = fst (attack now s);
          s2 = fst (hitDetection s1);
          s3 = removeEnemy e s2
      in health (objects s2 e) = 0 \<and>
         SetTimeout (RemoveEnemy e) 100 \<in> set (snd (hitDetection s1)) \<and>
         e \<in> set (enemies s2) \<and> currentTarget s2 = Some e \<and>
         e \<notin> set (enemies s3) \<and> \<not> targetLocked s3 \<and> currentTarget s3 = None) \<and>
     (\<forall>s'. currentTarget (removeEnemy e s') \<noteq> Some e)"
proof -
  define s1 where "s1 = fst (attack now s)"
  define s2 where "s2 = fst (hitDetection s1)"
  have sched: "SetTimeout HitDetection 200 \<in> set (snd (attack now s))"
    using assms(1) by (simp add: attack_def Let_def)
  have f1: "targetLocked s1" "currentTarget s1 = Some e" "enemies s1 = enemies s"
    "objects s1 = objects s" "position (player s1) = position (player s)"
    using assms by (simp_all add: s1_def attack_frame)
  have hit: "swordHits s1 e"
    using f1 assms(6) by (simp add: swordHits_def Let_def)
  have mem: "objects s2 e = objects (fst (strike s1 e)) e \<and>
             set (snd (strike s1 e)) \<subseteq> set (snd (hitDetection s1))"
    unfolding s2_def hitDetection_def
    using assms(4,5) f1(3) by (intro strikeAll_member) simp_all
  have h0: "health (objects (fst (strike s1 e)) e) = 0"
    using strike_hit [OF hit] assms(7) f1(4) by simp
  have t0: "SetTimeout (RemoveEnemy e) 100 \<in> set (snd (strike s1 e))"
    using strike_hit [OF hit] assms(7) f1(4) by simp
  have f2: "currentTarget s2 = Some e" "enemies s2 = enemies s"
    using strikeAll_frame [of "enemies s1" s1 e] f1
    by (simp_all add: s2_def hitDetection_def)
  have r: "e \<notin> set (enemies (removeEnemy e s2)) \<and> \<not> targetLocked (removeEnemy e s2) \<and>
           currentTarget (removeEnemy e s2) = None"
    using removeEnemy_clears(2) [OF f2(1)] removeEnemy_clears(3) [of s2 e] f2(2) assms(5)
    by simp
  have "SetTimeout HitDetection 200 \<in> set (snd (attack now s)) \<and>
     (let s1 = fst (attack now s);
          s2 = fst (hitDetection s1);
          s3 = removeEnemy e s2
      in health (objects s2 e) = 0 \<and>
         SetTimeout (RemoveEnemy e) 100 \<in> set (snd (hitDetection s1)) \<and>
         e \<in> set (enemies s2) \<and> currentTarget s2 = Some e \<and>
         e \<notin> set (enemies s3) \<and> \<not> targetLocked s3 \<and> currentTarget s3 = None)"
    using sched mem h0 t0 f2 r assms(4)
    by (auto simp: Let_def s1_def [symmetric] s2_def [symmetric])
  then show ?thesis
    using removeEnemy_clears(1) by blast
qed

theorem target_lock_cleared_on_death_witness:
  "\<not> targetLocked (removeEnemy 0 (fst (hitDetection (fst (attack 1000 engine_last_hit))))) \<and>
   currentTarget (removeEnemy 0 (fst (hitDetection (fst (attack 1000 engine_last_hit))))) = None"
  using target_lock_cleared_on_death [of engine_last_hit 0 1000]
  by (simp add: engine_last_hit_def engine0_def player0_def enemy0_def distanceTo_def Let_def)

section \<open>Movement resolution\<close>

lemma movementBasis_state:
  "position (player (snd (snd (movementBasis s)))) = position (player s)"
  "velocity (player (snd (snd (movementBasis s)))) = velocity (player s)"
  "onGround (player (snd (snd (movementBasis s)))) = onGround (player s)"
  "speed (player (snd (snd (movementBasis s)))) = speed (player s)"
  "radius (player (snd (snd (movementBasis s)))) = radius (player s)"
  "collidables (snd (snd (movementBasis s))) = collidables s"
  "keys (snd (snd (movementBasis s))) = keys s"
  "targetLocked (snd (snd (movementBasis s))) = targetLocked s"
  by (simp_all add: movementBasis_def Let_def split: option.splits bool.splits)

lemma movementBasis_horizontal:
  "vy (fst (movementBasis s)) = 0" "vy (fst (snd (movementBasis s))) = 0"
  by (simp_all add: movementBasis_def Let_def setY_def applyEulerY_def normalize_v_def
      crossVectors_def split: option.splits bool.splits)

lemma inputDirection_horizontal:
  "vy forward = 0 \<Longrightarrow> vy right = 0 \<Longrightarrow> vy (inputDirection k forward right) = 0"
  by (simp add: inputDirection_def Let_def add_def sub_def)

lemma checkCollision_basis:
  "checkCollision (snd (snd (movementBasis s))) pos = checkCollision s pos"
  by (simp add: checkCollision_def movementBasis_state)

lemma checkCollision_planar:
  "vx a = vx b \<Longrightarrow> vz a = vz b \<Longrightarrow> vy a \<le> 3 \<Longrightarrow> vy b \<le> 3 \<Longrightarrow>
   checkCollision s a = checkCollision s b"
  by (simp add: checkCollision_def checkCollidables_iff)

lemma update_unfold:
  "update s deltaTime =
     applyGravity
       (applyJump (movePlayer (snd (snd (movementBasis s)))
          (inputDirection (keys s) (fst (movementBasis s)) (fst (snd (movementBasis s))))
          deltaTime))
       deltaTime"
  by (simp add: update_def case_prod_beta movementBasis_state)

lemma movePlayer_state:
  "velocity (player (movePlayer s d deltaTime)) = velocity (player s)"
  "onGround (player (movePlayer s d deltaTime)) = onGround (player s)"
  "keys (movePlayer s d deltaTime) = keys s"
  by (simp_all add: movePlayer_def Let_def)

lemma movePlayer_position:
  "length_v d > 0 \<Longrightarrow>
   position (player (movePlayer s d deltaTime)) =
     resolveMovement s (add (position (player s))
        (multiplyScalar (normalize_v d) (speed (player s) * deltaTime)))"
  "\<not> length_v d > 0 \<Longrightarrow> position (player (movePlayer s d deltaTime)) = position (player s)"
  by (simp_all add: movePlayer_def Let_def)

lemma jump_gravity_planar:
  "vx (position (player (applyGravity (applyJump s) deltaTime))) = vx (position (player s))"
  "vz (position (player (applyGravity (applyJump s) deltaTime))) = vz (position (player s))"
  by (simp_all add: applyGravity_def applyJump_def Let_def setY_def)

lemma jump_gravity_grounded:
  "onGround (player s) \<Longrightarrow> \<not> k_jump (keys s) \<Longrightarrow> applyGravity (applyJump s) deltaTime = s"
  by (simp add: applyGravity_def applyJump_def)

lemma resolveMovement_height:
  assumes "vy newPosition = vy (position (player s))"
  shows "vy (resolveMovement s newPosition) = vy (position (player s)) \<or>
         (vy (resolveMovement s newPosition) = vy (position (player s)) + 0.1 \<and>
          2.9 < vy (position (player s)) \<and> vy (position (player s)) \<le> 3 \<and>
          checkCollision s newPosition \<and>
          checkCollision s (setX (position (player s)) (vx newPosition)) \<and>
          checkCollision s (setZ (position (player s)) (vz newPosition)) \<and>
          resolveMovement s newPosition = setY newPosition (vy newPosition + 0.1))"
proof (cases "checkCollision s newPosition \<and>
    checkCollision s (setX (position (player s)) (vx newPosition)) \<and>
    checkCollision s (setZ (position (player s)) (vz newPosition)) \<and>
    \<not> checkCollision s (setY newPosition (vy newPosition + 0.1))")
  case False
  then show ?thesis using assms
    by (auto simp: resolveMovement_def Let_def setX_def setZ_def)
next
  case True
  then have r: "resolveMovement s newPosition = setY newPosition (vy newPosition + 0.1)"
    by (simp add: resolveMovement_def Let_def)
  from True have low: "vy newPosition \<le> 3"
    by (auto simp: checkCollision_def split: if_splits)
  have "\<not> vy newPosition + 0.1 \<le> 3"
  proof
    assume "vy newPosition + 0.1 \<le> 3"
    then have "checkCollision s (setY newPosition (vy newPosition + 0.1)) =
               checkCollision s newPosition"
      using low by (intro checkCollision_planar) (simp_all add: setY_def)
    with True show False by blast
  qed
  with low r True assms show ?thesis by (simp add: setY_def)
qed

lemma normalize_v_horizontal: "vy d = 0 \<Longrightarrow> vy (normalize_v d) = 0"
  by (simp add: normalize_v_def)

lemma resolveMovement_basis:
  "resolveMovement (snd (snd (movementBasis s))) newPosition = resolveMovement s newPosition"
  by (simp add: resolveMovement_def Let_def checkCollision_basis movementBasis_state)

lemma update_position:
  "length_v (inputDirection (keys s) (fst (movementBasis s)) (fst (snd (movementBasis s)))) > 0
   \<Longrightarrow> position (player (movePlayer (snd (snd (movementBasis s)))
          (inputDirection (keys s) (fst (movementBasis s)) (fst (snd (movementBasis s))))
          deltaTime)) =
       resolveMovement s (add (position (player s))
         (multiplyScalar
            (normalize_v (inputDirection (keys s) (fst (movementBasis s))
               (fst (snd (movementBasis s)))))
            (speed (player s) * deltaTime)))"
  by (simp add: movePlayer_position resolveMovement_basis movementBasis_state)

lemma newPosition_height:
  "vy (add (position (player s))
         (multiplyScalar
            (normalize_v (inputDirection (keys s) (fst (movementBasis s))
               (fst (snd (movementBasis s)))))
            k)) = vy (position (player s))"
  by (simp add: add_def multiplyScalar_def normalize_v_horizontal inputDirection_horizontal
      movementBasis_horizontal)

text \<open>
  C2. In a tick whose accumulated direction is not zero, the position the movement block
  gives the player is the first clear one of: the full candidate, the X-only slide, the
  Z-only slide, the candidate raised by 0.1; when all four are blocked it is the old
  position. When the full candidate is blocked and the X-only slide is clear the result is
  the X-only slide, which then differs from the Z-only slide and from the raised candidate.
  Jump and gravity only change the height afterwards, and nothing at all for a grounded
  player without jump input.
\<close>

theorem sliding_fallback_order:
  "let dir = inputDirection (keys s) (fst (movementBasis s)) (fst (snd (movementBasis s)));
       pos = position (player s);
       newPosition = add pos (multiplyScalar (normalize_v dir) (speed (player s) * deltaTime));
       slideX = setX pos (vx newPosition);
       slideZ = setZ pos (vz newPosition);
       elevatedPosition = setY newPosition (vy newPosition + 0.1);
       moved = position (player (movePlayer (snd (snd (movementBasis s))) dir deltaTime));
       final = position (player (update s deltaTime))
   in length_v dir > 0 \<longrightarrow>
        (\<not> checkCollision s newPosition \<longrightarrow> moved = newPosition) \<and>
        (checkCollision s newPosition \<and> \<not> checkCollision s slideX \<longrightarrow>
           moved = slideX \<and> moved \<noteq> slideZ \<and> moved \<noteq> elevatedPosition) \<and>
        (checkCollision s newPosition \<and> checkCollision s slideX \<and>
         \<not> checkCollision s slideZ \<longrightarrow> moved = slideZ) \<and>
        (checkCollision s newPosition \<and> checkCollision s slideX \<and>
         checkCollision s slideZ \<and> \<not> checkCollision s elevatedPosition \<longrightarrow>
           moved = elevatedPosition) \<and>
        (checkCollision s newPosition \<and> checkCollision s slideX \<and>
         checkCollision s slideZ \<and> checkCollision s elevatedPosition \<longrightarrow> moved = pos) \<and>
        vx final = vx moved \<and> vz final = vz moved \<and>
        (onGround (player s) \<and> \<not> k_jump (keys s) \<longrightarrow> final = moved)"
proof -
  define dir where
    "dir = inputDirection (keys s) (fst (movementBasis s)) (fst (snd (movementBasis s)))"
  define pos where "pos = position (player s)"
  define newPosition where
    "newPosition = add pos (multiplyScalar (normalize_v dir) (speed (player s) * deltaTime))"
  define s1 where "s1 = movePlayer (snd (snd (movementBasis s))) dir deltaTime"
  have upd: "update s deltaTime = applyGravity (applyJump s1) deltaTime"
    by (simp add: update_unfold s1_def dir_def)
  have planar: "vx (position (player (update s deltaTime))) = vx (position (player s1))"
    "vz (position (player (update s deltaTime))) = vz (position (player s1))"
    by (simp_all add: upd jump_gravity_planar)
  have grounded: "onGround (player s) \<and> \<not> k_jump (keys s) \<longrightarrow>
      position (player (update s deltaTime)) = position (player s1)"
  proof
    assume g: "onGround (player s) \<and> \<not> k_jump (keys s)"
    then have "onGround (player s1)" "\<not> k_jump (keys s1)"
      by (simp_all add: s1_def movePlayer_state movementBasis_state)
    then show "position (player (update s deltaTime)) = position (player s1)"
      by (simp add: upd jump_gravity_grounded)
  qed
  have h: "vy newPosition = vy pos"
    unfolding newPosition_def pos_def dir_def by (rule newPosition_height)
  {
    assume len: "length_v dir > 0"
    have m: "position (player s1) = resolveMovement s newPosition"
      unfolding s1_def newPosition_def pos_def dir_def
      using len [unfolded dir_def] by (rule update_position)
    have a: "\<not> checkCollision s newPosition \<longrightarrow> position (player s1) = newPosition"
      by (simp add: m resolveMovement_def)
    have b: "checkCollision s newPosition \<and> \<not> checkCollision s (setX pos (vx newPosition)) \<longrightarrow>
        position (player s1) = setX pos (vx newPosition) \<and>
        position (player s1) \<noteq> setZ pos (vz newPosition) \<and>
        position (player s1) \<noteq> setY newPosition (vy newPosition + 0.1)"
    proof
      assume c: "checkCollision s newPosition \<and> \<not> checkCollision s (setX pos (vx newPosition))"
      then have r: "position (player s1) = setX pos (vx newPosition)"
        by (simp add: m resolveMovement_def Let_def pos_def)
      have ne: "setX pos (vx newPosition) \<noteq> newPosition"
        using c by auto
      have "setX pos (vx newPosition) \<noteq> setZ pos (vz newPosition)"
      proof
        assume e: "setX pos (vx newPosition) = setZ pos (vz newPosition)"
        then have "vx newPosition = vx pos" "vz newPosition = vz pos"
          by (simp_all add: setX_def setZ_def)
        with h have "setX pos (vx newPosition) = newPosition"
          by (simp add: setX_def vec3.expand)
        with ne show False by simp
      qed
      moreover have "setX pos (vx newPosition) \<noteq> setY newPosition (vy newPosition + 0.1)"
        using h by (simp add: setX_def setY_def)
      ultimately show "position (player s1) = setX pos (vx newPosition) \<and>
        position (player s1) \<noteq> setZ pos (vz newPosition) \<and>
        position (player s1) \<noteq> setY newPosition (vy newPosition + 0.1)"
        using r by simp
    qed
    have c: "checkCollision s newPosition \<and> checkCollision s (setX pos (vx newPosition)) \<and>
         \<not> checkCollision s (setZ pos (vz newPosition)) \<longrightarrow>
         position (player s1) = setZ pos (vz newPosition)"
      by (simp add: m resolveMovement_def Let_def pos_def)
    have d: "checkCollision s newPosition \<and> checkCollision s (setX pos (vx newPosition)) \<and>
         checkCollision s (setZ pos (vz newPosition)) \<and>
         \<not> checkCollision s (setY newPosition (vy newPosition + 0.1)) \<longrightarrow>
         position (player s1) = setY newPosition (vy newPosition + 0.1)"
      by (simp add: m resolveMovement_def Let_def pos_def)
    have e: "checkCollision s newPosition \<and> checkCollision s (setX pos (vx newPosition)) \<and>
         checkCollision s (setZ pos (vz newPosition)) \<and>
         checkCollision s (setY newPosition (vy newPosition + 0.1)) \<longrightarrow>
         position (player s1) = pos"
      by (simp add: m resolveMovement_def Let_def pos_def)
    note a b c d e
  }
  note order = this
  show ?thesis
    unfolding Let_def dir_def [symmetric] pos_def [symmetric] newPosition_def [symmetric]
      s1_def [symmetric]
    using order planar grounded by blast
qed

lemma sqrt_25: "sqrt 25 = 5"
  by (rule real_sqrt_unique) simp_all

lemma engine_slide_basis:
  "fst (movementBasis engine_slide) = Vector3 (3 / 5) 0 (4 / 5)"
  "fst (snd (movementBasis engine_slide)) = Vector3 (4 / 5) 0 (- 3 / 5)"
  by (simp_all add: movementBasis_def engine_slide_def engine0_def player0_def enemy0_def
      Let_def sub_def normalize_v_def length_v_def setY_def crossVectors_def sqrt_25)

lemma engine_slide_dir:
  "inputDirection (keys engine_slide) (fst (movementBasis engine_slide))
     (fst (snd (movementBasis engine_slide))) = Vector3 (3 / 5) 0 (4 / 5)"
  unfolding engine_slide_basis
  by (simp add: inputDirection_def engine_slide_def keys0_def add_def)

theorem sliding_fallback_order_witness:
  "checkCollision engine_slide (Vector3 (- 997 / 50) 1 (1223 / 100)) \<and>
   \<not> checkCollision engine_slide (Vector3 (- 997 / 50) 1 (243 / 20)) \<and>
   position (player (update engine_slide (1 / 50))) = Vector3 (- 997 / 50) 1 (243 / 20)"
proof -
  have cc: "checkCollision engine_slide (Vector3 (- 997 / 50) 1 (1223 / 100))"
    "\<not> checkCollision engine_slide (Vector3 (- 997 / 50) 1 (243 / 20))"
    by (simp_all add: checkCollision_def engine_slide_def engine0_def player0_def tree0_def
        house0_def collidablePosition_def real_sqrt_divide)
  have st: "position (player engine_slide) = Vector3 (- 20) 1 (243 / 20)"
    "speed (player engine_slide) = 5" "onGround (player engine_slide)"
    "\<not> k_jump (keys engine_slide)"
    by (simp_all add: engine_slide_def engine0_def player0_def keys0_def)
  show ?thesis
    using sliding_fallback_order [of engine_slide "1 / 50"] cc
    unfolding Let_def engine_slide_dir
    by (simp add: st normalize_v_def length_v_def add_def multiplyScalar_def setX_def)
qed

section \<open>Grounded ticks\<close>

lemma update_grounded:
  assumes "onGround (player s)" "\<not> k_jump (keys s)"
  shows "onGround (player (update s deltaTime)) \<and>
     velocity (player (update s deltaTime)) = velocity (player s) \<and>
     (vy (position (player (update s deltaTime))) = vy (position (player s)) \<or>
      vy (position (player (update s deltaTime))) = vy (position (player s)) + 0.1 \<and>
      2.9 < vy (position (player s)) \<and> vy (position (player s)) \<le> 3)"
proof -
  define dir where
    "dir = inputDirection (keys s) (fst (movementBasis s)) (fst (snd (movementBasis s)))"
  define s1 where "s1 = movePlayer (snd (snd (movementBasis s))) dir deltaTime"
  have g: "onGround (player s1)" "\<not> k_jump (keys s1)" "velocity (player s1) = velocity (player s)"
    using assms by (simp_all add: s1_def movePlayer_state movementBasis_state)
  have upd: "update s deltaTime = s1"
    using g by (simp add: update_unfold s1_def dir_def jump_gravity_grounded)
  have "vy (position (player s1)) = vy (position (player s)) \<or>
      vy (position (player s1)) = vy (position (player s)) + 0.1 \<and>
      2.9 < vy (position (player s)) \<and> vy (position (player s)) \<le> 3"
  proof (cases "length_v dir > 0")
    case True
    have m: "position (player s1) = resolveMovement s (add (position (player s))
         (multiplyScalar (normalize_v dir) (speed (player s) * deltaTime)))"
      unfolding s1_def dir_def using True [unfolded dir_def] by (rule update_position)
    have h: "vy (add (position (player s))
         (multiplyScalar (normalize_v dir) (speed (player s) * deltaTime)))
         = vy (position (player s))"
      unfolding dir_def by (rule newPosition_height)
    from resolveMovement_height [OF h] show ?thesis unfolding m by blast
  next
    case False
    then show ?thesis
      by (simp add: s1_def movePlayer_position movementBasis_state)
  qed
  with g upd show ?thesis by simp
qed

lemma frames_grounded:
  "onGround (player s) \<Longrightarrow> vy (position (player s)) \<le> 2.9 \<or> 3 < vy (position (player s)) \<Longrightarrow>
   \<forall>f \<in> set fs. \<not> k_jump (fst f) \<Longrightarrow>
   onGround (player (frames s fs)) \<and> velocity (player (frames s fs)) = velocity (player s) \<and>
   vy (position (player (frames s fs))) = vy (position (player s))"
proof (induction fs arbitrary: s)
  case Nil
  then show ?case by simp
next
  case (Cons f fs)
  obtain k deltaTime where f: "f = (k, deltaTime)" by (cases f)
  define s' where "s' = update (s\<lparr>keys := k\<rparr>) deltaTime"
  have nj: "\<not> k_jump k" using Cons.prems(3) f by simp
  have u: "onGround (player s') \<and> velocity (player s') = velocity (player s) \<and>
     (vy (position (player s')) = vy (position (player s)) \<or>
      vy (position (player s')) = vy (position (player s)) + 0.1 \<and>
      2.9 < vy (position (player s)) \<and> vy (position (player s)) \<le> 3)"
    using update_grounded [of "s\<lparr>keys := k\<rparr>" deltaTime] Cons.prems(1) nj
    by (simp add: s'_def)
  with Cons.prems(2) have same: "vy (position (player s')) = vy (position (player s))"
    by auto
  have "onGround (player (frames s' fs)) \<and>
     velocity (player (frames s' fs)) = velocity (player s') \<and>
     vy (position (player (frames s' fs))) = vy (position (player s'))"
    using Cons.prems u same by (intro Cons.IH) auto
  with u same show ?case by (simp add: f s'_def)
qed

text \<open>
  C9, amended. In a grounded state without jump input a tick keeps the player grounded
  and the velocity unchanged; the height is unchanged or, only from a height in (2.9, 3.0],
  raised by 0.1 through the step-up fallback. From a height of at most 2.9 or above 3.0 any
  number of frames without jump input leaves grounded flag, velocity and height as they
  were.
\<close>

theorem grounded_fixed_point:
  assumes "onGround (player s)" and "\<not> k_jump (keys s)"
  shows "onGround (player (update s deltaTime)) \<and>
     velocity (player (update s deltaTime)) = velocity (player s) \<and>
     (vy (position (player (update s deltaTime))) = vy (position (player s)) \<or>
      vy (position (player (update s deltaTime))) = vy (position (player s)) + 0.1 \<and>
      2.9 < vy (position (player s)) \<and> vy (position (player s)) \<le> 3) \<and>
     (vy (position (player s)) \<le> 2.9 \<or> 3 < vy (position (player s)) \<longrightarrow>
        (\<forall>fs. (\<forall>f \<in> set fs. \<not> k_jump (fst f)) \<longrightarrow>
           onGround (player (frames s fs)) \<and>
           velocity (player (frames s fs)) = velocity (player s) \<and>
           vy (position (player (frames s fs))) = vy (position (player s))))"
  using update_grounded [OF assms, of deltaTime] frames_grounded [OF assms(1)]
  by blast

text \<open>
  C9, as stated, fails: a grounded player at height 3.0 (where two enemy hits leave a
  player who stood at ground level) walking inside the house footprint is blocked on the
  full move and on both slides, and the step-up fallback raises it to 3.1.
\<close>

theorem grounded_fixed_point_counterexample:
  "onGround (player engine_step) \<and> \<not> k_jump (keys engine_step) \<and>
   vy (position (player engine_step)) = 3 \<and>
   vy (position (player (update engine_step (1 / 50)))) = 31 / 10"
  by (simp add: engine_step_def engine0_def player0_def keys0_def house0_def update_def
      movementBasis_def inputDirection_def movePlayer_def resolveMovement_def checkCollision_def
      collidablePosition_def applyJump_def applyGravity_def applyEulerY_def Let_def add_def
      sub_def multiplyScalar_def normalize_v_def length_v_def setX_def setY_def setZ_def)

theorem grounded_fixed_point_witness:
  "onGround (player engine_walk) \<and> \<not> k_jump (keys engine_walk) \<and>
   vy (position (player (update engine_walk (1 / 50)))) = 1 \<and>
   vy (position (player (frames engine_walk
       [(keys0\<lparr>k_forward := True\<rparr>, 1 / 50), (keys0\<lparr>k_left := True\<rparr>, 1 / 60)]))) = 1"
proof -
  have a: "onGround (player engine_walk)" "\<not> k_jump (keys engine_walk)"
    and h: "vy (position (player engine_walk)) = 1"
    by (simp_all add: engine_walk_def engine0_def player0_def keys0_def)
  have b: "\<forall>f \<in> set [(keys0\<lparr>k_forward := True\<rparr>, 1 / 50), (keys0\<lparr>k_left := True\<rparr>, 1 / 60 :: real)].
             \<not> k_jump (fst f)"
    by (simp add: keys0_def)
  note main = grounded_fixed_point [OF a, of "1 / 50"]
  from main h have one: "vy (position (player (update engine_walk (1 / 50)))) = 1"
    by auto
  from main h have "\<forall>fs. (\<forall>f \<in> set fs. \<not> k_jump (fst f)) \<longrightarrow>
       vy (position (player (frames engine_walk fs))) = 1"
    by auto
  with b have "vy (position (player (frames engine_walk
       [(keys0\<lparr>k_forward := True\<rparr>, 1 / 50), (keys0\<lparr>k_left := True\<rparr>, 1 / 60)]))) = 1"
    by blast
  with a one show ?thesis by blast
qed

section \<open>Acquiring the target lock\<close>

lemma add_sub_cancel: "sub (add p h) p = h"
  by (simp add: add_def sub_def)

lemma planar_sqrt_pos: "a \<noteq> 0 \<or> c \<noteq> 0 \<Longrightarrow> 0 < sqrt (a * a + c * c)"
proof -
  assume "a \<noteq> 0 \<or> c \<noteq> 0"
  then have "0 < a * a + c * c"
    by (metis add_pos_nonneg add_nonneg_pos zero_le_square mult_eq_0_iff
        less_le)
  then show ?thesis by simp
qed

lemma spatial_sqrt_pos: "a \<noteq> 0 \<or> c \<noteq> 0 \<Longrightarrow> 0 < sqrt (a * a + b * b + c * c)"
proof -
  assume h: "a \<noteq> 0 \<or> c \<noteq> 0"
  have "0 < a * a + c * c" using planar_sqrt_pos [OF h] by simp
  moreover have "0 \<le> b * b" by simp
  ultimately have "0 < a * a + b * b + c * c" by linarith
  then show ?thesis by simp
qed

lemma normalize_planar:
  assumes "a \<noteq> 0 \<or> c \<noteq> 0" and "0 < l"
  shows "normalize_v (Vector3 (a / l) 0 (c / l)) =
         Vector3 (a / sqrt (a * a + c * c)) 0 (c / sqrt (a * a + c * c))"
proof -
  have p: "0 < sqrt (a * a + c * c)" using assms(1) by (rule planar_sqrt_pos)
  have "a / l * (a / l) + c / l * (c / l) = (a * a + c * c) / (l * l)"
    by (simp add: add_divide_distrib)
  then have len: "length_v (Vector3 (a / l) 0 (c / l)) = sqrt (a * a + c * c) / l"
    using assms(2) by (simp add: length_v_def real_sqrt_divide real_sqrt_mult)
  have "0 < sqrt (a * a + c * c) / l" using p assms(2) by (rule divide_pos_pos)
  then have nz: "sqrt (a * a + c * c) / l \<noteq> 0" by (metis less_irrefl)
  show ?thesis
    unfolding normalize_v_def len using nz assms by simp
qed

lemma unit_planar:
  assumes "a \<noteq> 0 \<or> c \<noteq> 0"
  shows "(c / sqrt (a * a + c * c)) * (c / sqrt (a * a + c * c)) +
         (a / sqrt (a * a + c * c)) * (a / sqrt (a * a + c * c)) = 1"
proof -
  define q where "q = a * a + c * c"
  have q: "0 < q" using planar_sqrt_pos [OF assms] by (simp add: q_def)
  have s: "sqrt q * sqrt q = q" using q by simp
  have "(c / sqrt q) * (c / sqrt q) + (a / sqrt q) * (a / sqrt q)
        = (c * c + a * a) / (sqrt q * sqrt q)"
    by (simp add: add_divide_distrib)
  also have "\<dots> = q / q" unfolding s by (simp add: q_def)
  also have "\<dots> = 1" using q by simp
  finally show ?thesis unfolding q_def .
qed

lemma lookAt_horizontal:
  assumes "vx t \<noteq> vx p \<or> vz t \<noteq> vz p"
  shows "lookAt p (add p (setY (normalize_v (sub t p)) 0)) =
     Vector3 ((vx t - vx p) / sqrt ((vx t - vx p) * (vx t - vx p) + (vz t - vz p) * (vz t - vz p)))
             0
             ((vz t - vz p) / sqrt ((vx t - vx p) * (vx t - vx p) + (vz t - vz p) * (vz t - vz p)))"
proof -
  define a where "a = vx t - vx p"
  define b where "b = vy t - vy p"
  define c where "c = vz t - vz p"
  define l where "l = sqrt (a * a + b * b + c * c)"
  have ac: "a \<noteq> 0 \<or> c \<noteq> 0" using assms by (simp add: a_def c_def)
  have l: "0 < l" unfolding l_def using ac by (rule spatial_sqrt_pos)
  have h: "setY (normalize_v (sub t p)) 0 = Vector3 (a / l) 0 (c / l)"
    using l by (simp add: normalize_v_def sub_def length_v_def setY_def a_def b_def c_def l_def)
  have p: "0 < sqrt (a * a + c * c)" using ac by (rule planar_sqrt_pos)
  have nz: "lengthSq (Vector3 (a / l) 0 (c / l)) \<noteq> 0"
  proof -
    have "lengthSq (Vector3 (a / l) 0 (c / l)) = (a * a + c * c) / (l * l)"
      by (simp add: lengthSq_def add_divide_distrib)
    moreover have "0 < (a * a + c * c) / (l * l)"
      using p l by (intro divide_pos_pos mult_pos_pos) simp_all
    ultimately show ?thesis by (metis less_irrefl)
  qed
  have cr: "lengthSq (crossVectors (Vector3 0 1 0)
      (Vector3 (a / sqrt (a * a + c * c)) 0 (c / sqrt (a * a + c * c)))) = 1"
    using unit_planar [OF ac] by (simp add: lengthSq_def crossVectors_def)
  show ?thesis
    unfolding lookAt_def add_sub_cancel h Let_def a_def [symmetric] c_def [symmetric]
    using nz cr by (simp add: normalize_planar [OF ac l])
qed

lemma findClosest_result:
  assumes "(ce = None \<and> cd = None) \<or>
     (\<exists>t. ce = Some t \<and>
          cd = Some (distanceTo (position (player s)) (position (objects s t))) \<and>
          distanceTo (position (player s)) (position (objects s t)) < 15)"
  shows "(fst (findClosest s es (ce, cd)) = None \<longleftrightarrow>
            ce = None \<and>
            (\<forall>e \<in> set es. \<not> distanceTo (position (player s)) (position (objects s e)) < 15)) \<and>
         (\<forall>t. fst (findClosest s es (ce, cd)) = Some t \<longrightarrow>
            distanceTo (position (player s)) (position (objects s t)) < 15 \<and>
            (t \<in> set es \<or> ce = Some t) \<and>
            (\<forall>e \<in> set es. distanceTo (position (player s)) (position (objects s e)) < 15 \<longrightarrow>
               distanceTo (position (player s)) (position (objects s t))
                 \<le> distanceTo (position (player s)) (position (objects s e))) \<and>
            (\<forall>c. cd = Some c \<longrightarrow>
               distanceTo (position (player s)) (position (objects s t)) \<le> c))"
  using assms
proof (induction es arbitrary: ce cd)
  case Nil
  then show ?case by auto
next
  case (Cons a es)
  define d where "d = distanceTo (position (player s)) (position (objects s a))"
  show ?case
  proof (cases "(case cd of None \<Rightarrow> True | Some c \<Rightarrow> d < c) \<and> d < 15")
    case True
    then have step: "findClosest s (a # es) (ce, cd) = findClosest s es (Some a, Some d)"
      unfolding d_def by (auto simp: Let_def split: option.splits)
    have inv: "(Some a = None \<and> Some d = None) \<or>
       (\<exists>t. Some a = Some t \<and>
          Some d = Some (distanceTo (position (player s)) (position (objects s t))) \<and>
          distanceTo (position (player s)) (position (objects s t)) < 15)"
      using True by (simp add: d_def)
    note ih = Cons.IH [OF inv]
    from True have below: "\<forall>c. cd = Some c \<longrightarrow> d \<le> c" by (auto split: option.splits)
    show ?thesis
      unfolding step using ih True below
      by (fastforce simp: d_def [symmetric])
  next
    case False
    then have step: "findClosest s (a # es) (ce, cd) = findClosest s es (ce, cd)"
      unfolding d_def by (auto simp: Let_def split: option.splits)
    note ih = Cons.IH [OF Cons.prems]
    from False Cons.prems have far: "d < 15 \<longrightarrow>
       (\<exists>t. ce = Some t \<and>
          cd = Some (distanceTo (position (player s)) (position (objects s t))) \<and>
          distanceTo (position (player s)) (position (objects s t)) \<le> d)"
      by (auto split: option.splits)
    show ?thesis
      unfolding step using ih far
      by (fastforce simp: d_def [symmetric])
  qed
qed

text \<open>
  C7. In a state without a lock: when every enemy of the array is 15 or more away,
  \<open>toggleTargetLock\<close> changes nothing; when some enemy is closer than 15 it locks on an
  enemy of the array that is closer than 15 and at least as close as every other one, sets
  \<open>targetLocked\<close>, and turns the player to it: unless the target is exactly above or below
  the player, the new facing is the unit vector of the horizontal direction to the target.
\<close>

theorem toggleTargetLock_acquire:
  assumes "\<not> targetLocked s"
  shows "((\<forall>e \<in> set (enemies s).
             15 \<le> distanceTo (position (player s)) (position (objects s e))) \<longrightarrow>
          toggleTargetLock s = s) \<and>
         ((\<exists>e \<in> set (enemies s).
             distanceTo (position (player s)) (position (objects s e)) < 15) \<longrightarrow>
          (\<exists>t \<in> set (enemies s).
             distanceTo (position (player s)) (position (objects s t)) < 15 \<and>
             (\<forall>e \<in> set (enemies s).
                distanceTo (position (player s)) (position (objects s t))
                  \<le> distanceTo (position (player s)) (position (objects s e))) \<and>
             toggleTargetLock s =
               s\<lparr>currentTarget := Some t, targetLocked := True,
                  player := (player s)\<lparr>facing :=
                    lookAt (position (player s))
                      (add (position (player s))
                         (setY (normalize_v (sub (position (objects s t))
                                                 (position (player s)))) 0))\<rparr>\<rparr> \<and>
             (vx (position (objects s t)) \<noteq> vx (position (player s)) \<or>
              vz (position (objects s t)) \<noteq> vz (position (player s)) \<longrightarrow>
                facing (player (toggleTargetLock s)) =
                  Vector3
                    ((vx (position (objects s t)) - vx (position (player s))) /
                       sqrt ((vx (position (objects s t)) - vx (position (player s))) *
                             (vx (position (objects s t)) - vx (position (player s))) +
                             (vz (position (objects s t)) - vz (position (player s))) *
                             (vz (position (objects s t)) - vz (position (player s)))))
                    0
                    ((vz (position (objects s t)) - vz (position (player s))) /
                       sqrt ((vx (position (objects s t)) - vx (position (player s))) *
                             (vx (position (objects s t)) - vx (position (player s))) +
                             (vz (position (objects s t)) - vz (position (player s))) *
                             (vz (position (objects s t)) - vz (position (player s))))))))"
proof -
  have inv: "((None :: nat option) = None \<and> (None :: real option) = None) \<or>
     (\<exists>t. None = Some t \<and>
          None = Some (distanceTo (position (player s)) (position (objects s t))) \<and>
          distanceTo (position (player s)) (position (objects s t)) < 15)"
    by simp
  note r = findClosest_result [OF inv, of "enemies s"]
  have none: "(\<forall>e \<in> set (enemies s).
             15 \<le> distanceTo (position (player s)) (position (objects s e))) \<longrightarrow>
          toggleTargetLock s = s"
  proof
    assume far: "\<forall>e \<in> set (enemies s).
             15 \<le> distanceTo (position (player s)) (position (objects s e))"
    then have "\<forall>e \<in> set (enemies s).
             \<not> distanceTo (position (player s)) (position (objects s e)) < 15"
      by (simp add: not_less)
    with r have "fst (findClosest s (enemies s) (None, None)) = None" by blast
    then show "toggleTargetLock s = s" using assms by (simp add: toggleTargetLock_def)
  qed
  have some: "(\<exists>e \<in> set (enemies s).
             distanceTo (position (player s)) (position (objects s e)) < 15) \<longrightarrow>
          (\<exists>t \<in> set (enemies s).
             distanceTo (position (player s)) (position (objects s t)) < 15 \<and>
             (\<forall>e \<in> set (enemies s).
                distanceTo (position (player s)) (position (objects s t))
                  \<le> distanceTo (position (player s)) (position (objects s e))) \<and>
             toggleTargetLock s =
               s\<lparr>currentTarget := Some t, targetLocked := True,
                  player := (player s)\<lparr>facing :=
                    lookAt (position (player s))
                      (add (position (player s))
                         (setY (normalize_v (sub (position (objects s t))
                                                 (position (player s)))) 0))\<rparr>\<rparr>)"
  proof
    assume near: "\<exists>e \<in> set (enemies s).
             distanceTo (position (player s)) (position (objects s e)) < 15"
    then have ne: "enemies s \<noteq> []" by auto
    from near r have "fst (findClosest s (enemies s) (None, None)) \<noteq> None" by blast
    then obtain t where t: "fst (findClosest s (enemies s) (None, None)) = Some t" by auto
    with r have p: "distanceTo (position (player s)) (position (objects s t)) < 15"
      "t \<in> set (enemies s)"
      "\<forall>e \<in> set (enemies s). distanceTo (position (player s)) (position (objects s e)) < 15 \<longrightarrow>
               distanceTo (position (player s)) (position (objects s t))
                 \<le> distanceTo (position (player s)) (position (objects s e))"
      by auto
    have least: "\<forall>e \<in> set (enemies s).
                distanceTo (position (player s)) (position (objects s t))
                  \<le> distanceTo (position (player s)) (position (objects s e))"
    proof
      fix e assume e: "e \<in> set (enemies s)"
      show "distanceTo (position (player s)) (position (objects s t))
                  \<le> distanceTo (position (player s)) (position (objects s e))"
      proof (cases "distanceTo (position (player s)) (position (objects s e)) < 15")
        case True
        with p(3) e show ?thesis by blast
      next
        case False
        with p(1) show ?thesis by linarith
      qed
    qed
    have "toggleTargetLock s =
               s\<lparr>currentTarget := Some t, targetLocked := True,
                  player := (player s)\<lparr>facing :=
                    lookAt (position (player s))
                      (add (position (player s))
                         (setY (normalize_v (sub (position (objects s t))
                                                 (position (player s)))) 0))\<rparr>\<rparr>"
      using assms ne t by (simp add: toggleTargetLock_def Let_def)
    with p(1,2) least show "\<exists>t \<in> set (enemies s).
             distanceTo (position (player s)) (position (objects s t)) < 15 \<and>
             (\<forall>e \<in> set (enemies s).
                distanceTo (position (player s)) (position (objects s t))
                  \<le> distanceTo (position (player s)) (position (objects s e))) \<and>
             toggleTargetLock s =
               s\<lparr>currentTarget := Some t, targetLocked := True,
                  player := (player s)\<lparr>facing :=
                    lookAt (position (player s))
                      (add (position (player s))
                         (setY (normalize_v (sub (position (objects s t))
                                                 (position (player s)))) 0))\<rparr>\<rparr>"
      by blast
  qed
  show ?thesis
  proof (intro conjI none impI)
    assume near: "\<exists>e \<in> set (enemies s).
             distanceTo (position (player s)) (position (objects s e)) < 15"
    with some obtain t where t: "t \<in> set (enemies s)"
      "distanceTo (position (player s)) (position (objects s t)) < 15"
      "\<forall>e \<in> set (enemies s).
                distanceTo (position (player s)) (position (objects s t))
                  \<le> distanceTo (position (player s)) (position (objects s e))"
      "toggleTargetLock s =
               s\<lparr>currentTarget := Some t, targetLocked := True,
                  player := (player s)\<lparr>facing :=
                    lookAt (position (player s))
                      (add (position (player s))
                         (setY (normalize_v (sub (position (objects s t))
                                                 (position (player s)))) 0))\<rparr>\<rparr>"
      by blast
    have f: "facing (player (toggleTargetLock s)) =
        lookAt (position (player s))
          (add (position (player s))
             (setY (normalize_v (sub (position (objects s t)) (position (player s)))) 0))"
      unfolding t(4) by simp
    have fh: "(vx (position (objects s t)) \<noteq> vx (position (player s)) \<or>
              vz (position (objects s t)) \<noteq> vz (position (player s)) \<longrightarrow>
                facing (player (toggleTargetLock s)) =
                  Vector3
                    ((vx (position (objects s t)) - vx (position (player s))) /
                       sqrt ((vx (position (objects s t)) - vx (position (player s))) *
                             (vx (position (objects s t)) - vx (position (player s))) +
                             (vz (position (objects s t)) - vz (position (player s))) *
                             (vz (position (objects s t)) - vz (position (player s)))))
                    0
                    ((vz (position (objects s t)) - vz (position (player s))) /
                       sqrt ((vx (position (objects s t)) - vx (position (player s))) *
                             (vx (position (objects s t)) - vx (position (player s))) +
                             (vz (position (objects s t)) - vz (position (player s))) *
                             (vz (position (objects s t)) - vz (position (player s))))))"
      unfolding f
      using lookAt_horizontal [of "position (objects s t)" "position (player s)"] by blast
    show "\<exists>t \<in> set (enemies s).
             distanceTo (position (player s)) (position (objects s t)) < 15 \<and>
             (\<forall>e \<in> set (enemies s).
                distanceTo (position (player s)) (position (objects s t))
                  \<le> distanceTo (position (player s)) (position (objects s e))) \<and>
             toggleTargetLock s =
               s\<lparr>currentTarget := Some t, targetLocked := True,
                  player := (player s)\<lparr>facing :=
                    lookAt (position (player s))
                      (add (position (player s))
                         (setY (normalize_v (sub (position (objects s t))
                                                 (position (player s)))) 0))\<rparr>\<rparr> \<and>
             (vx (position (objects s t)) \<noteq> vx (position (player s)) \<or>
              vz (position (objects s t)) \<noteq> vz (position (player s)) \<longrightarrow>
                facing (player (toggleTargetLock s)) =
                  Vector3
                    ((vx (position (objects s t)) - vx (position (player s))) /
                       sqrt ((vx (position (objects s t)) - vx (position (player s))) *
                             (vx (position (objects s t)) - vx (position (player s))) +
                             (vz (position (objects s t)) - vz (position (player s))) *
                             (vz (position (objects s t)) - vz (position (player s)))))
                    0
                    ((vz (position (objects s t)) - vz (position (player s))) /
                       sqrt ((vx (position (objects s t)) - vx (position (player s))) *
                             (vx (position (objects s t)) - vx (position (player s))) +
                             (vz (position (objects s t)) - vz (position (player s))) *
                             (vz (position (objects s t)) - vz (position (player s))))))"
      using t(1,2,3,4) fh by blast
  qed
qed

lemma sqrt_400: "sqrt 400 = 20"
  by (rule real_sqrt_unique) simp_all

theorem toggleTargetLock_acquire_witness:
  "\<not> targetLocked engine_two \<and>
   targetLocked (toggleTargetLock engine_two) \<and>
   currentTarget (toggleTargetLock engine_two) = Some 1 \<and>
   facing (player (toggleTargetLock engine_two)) = Vector3 (3 / 5) 0 (4 / 5) \<and>
   \<not> targetLocked engine_far \<and> toggleTargetLock engine_far = engine_far"
proof -
  have u: "\<not> targetLocked engine_two" "\<not> targetLocked engine_far"
    by (simp_all add: engine_two_def engine_far_def engine0_def)
  have d: "distanceTo (position (player engine_two)) (position (objects engine_two 0)) = 20"
    "distanceTo (position (player engine_two)) (position (objects engine_two 1)) = 5"
    "distanceTo (position (player engine_far)) (position (objects engine_far 0)) = 20"
    by (simp_all add: engine_two_def engine_far_def engine0_def player0_def enemy0_def
        distanceTo_def sqrt_400 sqrt_25)
  have en: "set (enemies engine_two) = {0, 1}" "set (enemies engine_far) = {0}"
    by (auto simp: engine_two_def engine_far_def engine0_def)
  have "\<forall>e \<in> set (enemies engine_far).
      15 \<le> distanceTo (position (player engine_far)) (position (objects engine_far e))"
    using d(3) en(2) by simp
  with toggleTargetLock_acquire [OF u(2), THEN conjunct1]
  have far: "toggleTargetLock engine_far = engine_far" by (rule mp)
  have near: "\<exists>e \<in> set (enemies engine_two).
      distanceTo (position (player engine_two)) (position (objects engine_two e)) < 15"
    using d(2) en(1) by auto
  from toggleTargetLock_acquire [OF u(1), THEN conjunct2, THEN mp, OF near]
  obtain t where t: "t \<in> set (enemies engine_two)"
    "distanceTo (position (player engine_two)) (position (objects engine_two t)) < 15"
    "toggleTargetLock engine_two =
       engine_two\<lparr>currentTarget := Some t, targetLocked := True,
         player := (player engine_two)\<lparr>facing :=
           lookAt (position (player engine_two))
             (add (position (player engine_two))
                (setY (normalize_v (sub (position (objects engine_two t))
                                        (position (player engine_two)))) 0))\<rparr>\<rparr>"
    "vx (position (objects engine_two t)) \<noteq> vx (position (player engine_two)) \<or>
     vz (position (objects engine_two t)) \<noteq> vz (position (player engine_two)) \<longrightarrow>
       facing (player (toggleTargetLock engine_two)) =
         Vector3
           ((vx (position (objects engine_two t)) - vx (position (player engine_two))) /
              sqrt ((vx (position (objects engine_two t)) - vx (position (player engine_two))) *
                    (vx (position (objects engine_two t)) - vx (position (player engine_two))) +
                    (vz (position (objects engine_two t)) - vz (position (player engine_two))) *
                    (vz (position (objects engine_two t)) - vz (position (player engine_two)))))
           0
           ((vz (position (objects engine_two t)) - vz (position (player engine_two))) /
              sqrt ((vx (position (objects engine_two t)) - vx (position (player engine_two))) *
                    (vx (position (objects engine_two t)) - vx (position (player engine_two))) +
                    (vz (position (objects engine_two t)) - vz (position (player engine_two))) *
                    (vz (position (objects engine_two t)) - vz (position (player engine_two)))))"
    by blast
  have "t = 0 \<or> t = 1" using t(1) unfolding en(1) by blast
  moreover have "t \<noteq> 0"
  proof
    assume "t = 0"
    with t(2) have "(20 :: real) < 15" unfolding d(1) [symmetric] by simp
    then show False by simp
  qed
  ultimately have t1: "t = 1" by blast
  have pos: "position (objects engine_two 1) = Vector3 8 1 9"
    "position (player engine_two) = Vector3 5 1 5"
    by (simp_all add: engine_two_def engine0_def player0_def enemy0_def)
  have f: "facing (player (toggleTargetLock engine_two)) = Vector3 (3 / 5) 0 (4 / 5)"
    using t(4) unfolding t1 pos by (simp add: sqrt_25)
  have l: "targetLocked (toggleTargetLock engine_two)"
    "currentTarget (toggleTargetLock engine_two) = Some 1"
    unfolding t(3) t1 by simp_all
  from u f l far show ?thesis by blast
qed

section \<open>The hit test\<close>

lemma attack_schedules:
  "\<not> isAttacking (player s) \<Longrightarrow>
   snd (attack now s) = [SetTimeout HitDetection 200, RequestAnimationFrame (AnimateSwordSwing now)]"
  by (simp add: attack_def Let_def)

lemma attack_unlocked_facing:
  "\<not> targetLocked s \<Longrightarrow> facing (player (fst (attack now s))) = facing (player s)"
  by (simp add: attack_def Let_def)

lemma angleTo_ahead:
  assumes "vy f = 0" and "vx f * vx f + vz f * vz f = 1" and "0 < l"
  shows "angleTo f (Vector3 (vx f / l) 0 (vz f / l)) = 0"
proof -
  have lf: "lengthSq f = 1" using assms(1,2) by (simp add: lengthSq_def)
  have "vx f / l * (vx f / l) + vz f / l * (vz f / l) = (vx f * vx f + vz f * vz f) / (l * l)"
    by (simp add: add_divide_distrib)
  then have lt: "lengthSq (Vector3 (vx f / l) 0 (vz f / l)) = 1 / (l * l)"
    using assms(2) by (simp add: lengthSq_def)
  have den: "sqrt (lengthSq f * lengthSq (Vector3 (vx f / l) 0 (vz f / l))) = 1 / l"
    unfolding lf lt using assms(3) by (simp add: real_sqrt_divide)
  have "vx f * (vx f / l) + vz f * (vz f / l) = (vx f * vx f + vz f * vz f) / l"
    by (simp add: add_divide_distrib)
  then have d: "dot f (Vector3 (vx f / l) 0 (vz f / l)) = 1 / l"
    using assms(1,2) by (simp add: dot_def)
  have nz: "1 / l \<noteq> 0" using assms(3) by simp
  have "(1 / l) / (1 / l) = 1" using nz by simp
  then show ?thesis
    unfolding angleTo_def den d Let_def using nz by simp
qed

lemma swordHits_ahead:
  assumes "vy (facing (player s)) = 0"
    and "vx (facing (player s)) * vx (facing (player s)) +
         vz (facing (player s)) * vz (facing (player s)) = 1"
    and "vx (position (objects s e)) = vx (position (player s)) + vx (facing (player s))"
    and "vz (position (objects s e)) = vz (position (player s)) + vz (facing (player s))"
    and "distanceTo (position (player s)) (position (objects s e)) < 2"
  shows "swordHits s e"
proof -
  define f where "f = facing (player s)"
  define b where "b = vy (position (objects s e)) - vy (position (player s))"
  define l where "l = sqrt (vx f * vx f + b * b + vz f * vz f)"
  have "vx f \<noteq> 0 \<or> vz f \<noteq> 0" using assms(2) unfolding f_def by auto
  then have l: "0 < l" unfolding l_def by (rule spatial_sqrt_pos)
  have sb: "sub (position (objects s e)) (position (player s)) = Vector3 (vx f) b (vz f)"
    using assms(3,4) by (simp add: sub_def f_def b_def)
  have len: "length_v (Vector3 (vx f) b (vz f)) = l" by (simp add: length_v_def l_def)
  have toEnemy: "setY (normalize_v (sub (position (objects s e)) (position (player s)))) 0
      = Vector3 (vx f / l) 0 (vz f / l)"
    unfolding sb normalize_v_def len using l by (simp add: setY_def)
  have ang: "angleTo (facing (player s))
       (setY (normalize_v (sub (position (objects s e)) (position (player s)))) 0) = 0"
    unfolding toEnemy f_def [symmetric]
    using assms(1,2) l unfolding f_def [symmetric] by (rule angleTo_ahead)
  have "distanceTo (position (player s)) (position (objects s e)) <
        (if targetLocked s \<and> currentTarget s = Some e then 3 else 2)"
    using assms(5) by simp
  then show ?thesis
    unfolding swordHits_def Let_def ang by (auto split: if_splits)
qed

text \<open>
  C5, amended. The player is not attacking and calls \<open>attack\<close>; \<open>e\<close> is an enemy of the
  array, one unit ahead of the player in the plane (its X/Z offset is the player's
  horizontal unit facing as \<open>attack\<close> leaves it), and its distance from the player in
  space, height difference included, is less than the default range 2.0. Then \<open>attack\<close>
  schedules the hit detection, and the hit detection, run on the state \<open>attack\<close> left,
  lowers the enemy's health by one, floored at 0, moves it in X and Z by its offset from
  the player divided by their distance (a non-zero push away from the player), adds nothing
  to its height and clamps the height to at least 0.8.
\<close>

theorem attack_hits_enemy_ahead:
  assumes "\<not> isAttacking (player s)"
    and "e \<in> set (enemies s)" and "distinct (enemies s)"
    and "vy (facing (player (fst (attack now s)))) = 0"
    and "vx (facing (player (fst (attack now s)))) * vx (facing (player (fst (attack now s)))) +
         vz (facing (player (fst (attack now s)))) * vz (facing (player (fst (attack now s)))) = 1"
    and "vx (position (objects s e)) =
         vx (position (player s)) + vx (facing (player (fst (attack now s))))"
    and "vz (position (objects s e)) =
         vz (position (player s)) + vz (facing (player (fst (attack now s))))"
    and "distanceTo (position (player s)) (position (objects s e)) < 2"
  shows "SetTimeout HitDetection 200 \<in> set (snd (attack now s)) \<and>
     (let before = objects s e;
          after = objects (fst (hitDetection (fst (attack now s)))) e;
          l = distanceTo (position (player s)) (position before)
      in health after = max 0 (health before - 1) \<and>
         0 < l \<and>
         vx (position after) - vx (position before) =
           (vx (position before) - vx (position (player s))) / l \<and>
         vz (position after) - vz (position before) =
           (vz (position before) - vz (position (player s))) / l \<and>
         (vx (position after) \<noteq> vx (position before) \<or>
          vz (position after) \<noteq> vz (position before)) \<and>
         vy (position after) = max (vy (position before)) 0.8)"
proof -
  define s1 where "s1 = fst (attack now s)"
  define l where "l = distanceTo (position (player s)) (position (objects s e))"
  have fr: "enemies s1 = enemies s" "objects s1 = objects s"
    "position (player s1) = position (player s)"
    by (simp_all add: s1_def attack_frame)
  have hit: "swordHits s1 e"
    using assms(4-8) unfolding s1_def [symmetric] fr [symmetric] by (rule swordHits_ahead)
  have mem: "objects (fst (hitDetection s1)) e = objects (fst (strike s1 e)) e"
    unfolding hitDetection_def
    using assms(2,3) fr(1) strikeAll_member [of e "enemies s1" s1] by simp
  note st = strike_hit [OF hit, THEN conjunct1, unfolded fr]
  have nzf: "vx (facing (player s1)) \<noteq> 0 \<or> vz (facing (player s1)) \<noteq> 0"
    using assms(5) unfolding s1_def [symmetric] by auto
  then have nz: "vx (position (objects s e)) - vx (position (player s)) \<noteq> 0 \<or>
      vz (position (objects s e)) - vz (position (player s)) \<noteq> 0"
    using assms(6,7) unfolding s1_def [symmetric] by simp
  have l: "0 < l"
  proof -
    have "0 < sqrt ((vx (position (objects s e)) - vx (position (player s))) *
                    (vx (position (objects s e)) - vx (position (player s))) +
                    (vy (position (objects s e)) - vy (position (player s))) *
                    (vy (position (objects s e)) - vy (position (player s))) +
                    (vz (position (objects s e)) - vz (position (player s))) *
                    (vz (position (objects s e)) - vz (position (player s))))"
      using nz by (rule spatial_sqrt_pos)
    also have "\<dots> = l"
      unfolding l_def distanceTo_def
      by (rule arg_cong [where f = sqrt]) (simp add: algebra_simps)
    finally show ?thesis .
  qed
  have len: "length_v (sub (position (objects s e)) (position (player s))) = l"
    unfolding l_def distanceTo_def length_v_def sub_def
    by (rule arg_cong [where f = sqrt]) (simp add: algebra_simps)
  have k: "setY (normalize_v (sub (position (objects s e)) (position (player s)))) 0 =
      Vector3 ((vx (position (objects s e)) - vx (position (player s))) / l) 0
              ((vz (position (objects s e)) - vz (position (player s))) / l)"
    unfolding normalize_v_def len using l by (simp add: setY_def sub_def)
  have after: "objects (fst (hitDetection s1)) e =
      (objects s e)\<lparr>position :=
         Vector3 (vx (position (objects s e)) +
                    (vx (position (objects s e)) - vx (position (player s))) / l)
                 (max (vy (position (objects s e))) 0.8)
                 (vz (position (objects s e)) +
                    (vz (position (objects s e)) - vz (position (player s))) / l),
         health := max 0 (health (objects s e) - 1)\<rparr>"
    unfolding mem st k by simp
  have moved: "(vx (position (objects s e)) - vx (position (player s))) / l \<noteq> 0 \<or>
      (vz (position (objects s e)) - vz (position (player s))) / l \<noteq> 0"
    using nz l by simp
  have sched: "SetTimeout HitDetection 200 \<in> set (snd (attack now s))"
    using assms(1) by (simp add: attack_schedules)
  show ?thesis
    unfolding Let_def s1_def [symmetric] l_def [symmetric] after
    using sched l moved by simp
qed

theorem attack_hits_enemy_ahead_witness:
  "health (objects (fst (hitDetection (fst (attack 1000 engine0)))) 0) = 1 \<and>
   position (objects (fst (hitDetection (fst (attack 1000 engine0)))) 0) = Vector3 5 1 7"
proof -
  have f: "facing (player (fst (attack 1000 engine0))) = Vector3 0 0 1"
    by (simp add: attack_def engine0_def player0_def Let_def)
  have d: "distanceTo (Vector3 5 1 5) (Vector3 5 1 6) = 1"
    by (simp add: distanceTo_def)
  have p: "position (player engine0) = Vector3 5 1 5"
    "position (objects engine0 0) = Vector3 5 1 6" "health (objects engine0 0) = 2"
    "\<not> isAttacking (player engine0)" "0 \<in> set (enemies engine0)" "distinct (enemies engine0)"
    by (simp_all add: engine0_def player0_def enemy0_def)
  have "health (objects (fst (hitDetection (fst (attack 1000 engine0)))) 0) = 1 \<and>
     vx (position (objects (fst (hitDetection (fst (attack 1000 engine0)))) 0)) = 5 \<and>
     vy (position (objects (fst (hitDetection (fst (attack 1000 engine0)))) 0)) = 1 \<and>
     vz (position (objects (fst (hitDetection (fst (attack 1000 engine0)))) 0)) = 7"
    using attack_hits_enemy_ahead [of engine0 0 1000]
    by (simp add: f p d Let_def)
  then show ?thesis
    by (cases "position (objects (fst (hitDetection (fst (attack 1000 engine0)))) 0)") simp
qed

lemma sqrt_169: "sqrt 169 = 13"
  by (rule real_sqrt_unique) simp_all

text \<open>
  C5, as stated, fails: the player is in the air at height 3.4, not attacking and not
  locked, and the enemy at height 1 is one unit straight ahead in the plane, at angle 0.
  Its distance in space is 2.6, beyond the default range, and the sword tip is 2.45 away:
  after \<open>attack\<close> and the hit detection the enemy has its health of 2 and its position.
\<close>

theorem attack_hits_enemy_ahead_counterexample:
  "\<not> isAttacking (player engine_above) \<and>
   facing (player (fst (attack 1000 engine_above))) = Vector3 0 0 1 \<and>
   vx (position (objects engine_above 0)) =
     vx (position (player engine_above)) + vx (facing (player (fst (attack 1000 engine_above)))) \<and>
   vz (position (objects engine_above 0)) =
     vz (position (player engine_above)) + vz (facing (player (fst (attack 1000 engine_above)))) \<and>
   sqrt ((vx (position (player engine_above)) - vx (position (objects engine_above 0))) *
         (vx (position (player engine_above)) - vx (position (objects engine_above 0))) +
         (vz (position (player engine_above)) - vz (position (objects engine_above 0))) *
         (vz (position (player engine_above)) - vz (position (objects engine_above 0)))) = 1 \<and>
   angleTo (facing (player (fst (attack 1000 engine_above))))
     (setY (normalize_v (sub (position (objects engine_above 0))
                             (position (player engine_above)))) 0) = 0 \<and>
   health (objects engine_above 0) = 2 \<and>
   health (objects (fst (hitDetection (fst (attack 1000 engine_above)))) 0) = 2 \<and>
   position (objects (fst (hitDetection (fst (attack 1000 engine_above)))) 0) = Vector3 5 1 6"
proof -
  define s1 where "s1 = fst (attack 1000 engine_above)"
  have p: "position (player engine_above) = Vector3 5 (17 / 5) 5"
    "position (objects engine_above 0) = Vector3 5 1 6"
    "health (objects engine_above 0) = 2" "\<not> isAttacking (player engine_above)"
    by (simp_all add: engine_above_def engine0_def player0_def enemy0_def)
  have q: "position (player s1) = Vector3 5 (17 / 5) 5" "facing (player s1) = Vector3 0 0 1"
    "objects s1 0 = enemy0" "\<not> targetLocked s1" "enemies s1 = [0]"
    by (simp_all add: s1_def attack_def Let_def engine_above_def engine0_def player0_def)
  have e: "position enemy0 = Vector3 5 1 6" "health enemy0 = 2"
    by (simp_all add: enemy0_def)
  have l: "sqrt (169 / 25) = 13 / 5" "sqrt (25 / 169) = 5 / 13"
    by (simp_all add: real_sqrt_divide sqrt_169 sqrt_25)
  have planar: "sqrt ((vx (position (player engine_above)) - vx (position (objects engine_above 0))) *
         (vx (position (player engine_above)) - vx (position (objects engine_above 0))) +
         (vz (position (player engine_above)) - vz (position (objects engine_above 0))) *
         (vz (position (player engine_above)) - vz (position (objects engine_above 0)))) = 1"
    unfolding p by simp
  have ahead: "vx (position (objects engine_above 0)) =
      vx (position (player engine_above)) + vx (facing (player s1))"
    "vz (position (objects engine_above 0)) =
      vz (position (player engine_above)) + vz (facing (player s1))"
    unfolding p q by simp_all
  have to: "setY (normalize_v (sub (Vector3 5 1 6) (Vector3 5 (17 / 5) 5))) 0
      = Vector3 0 0 (5 / 13)"
    by (simp add: sub_def normalize_v_def length_v_def setY_def l)
  have ang: "angleTo (facing (player s1))
     (setY (normalize_v (sub (position (objects engine_above 0))
                             (position (player engine_above)))) 0) = 0"
    unfolding p q to by (simp add: angleTo_def lengthSq_def dot_def l)
  have far: "\<not> distanceTo (Vector3 5 (17 / 5) 5) (Vector3 5 1 6) < 2"
    by (simp add: distanceTo_def l)
  have tip: "\<not> distanceTo (Vector3 5 1 6) (Vector3 5 (17 / 5) (13 / 2)) < 3 / 2"
  proof -
    have "distanceTo (Vector3 5 1 6) (Vector3 5 (17 / 5) (13 / 2)) = sqrt (601 / 100)"
      by (simp add: distanceTo_def)
    moreover have "\<not> sqrt (601 / 100) < 3 / 2"
      by (subst sqrt_less_iff) simp_all
    ultimately show ?thesis by simp
  qed
  have miss: "\<not> swordHits s1 0"
    unfolding swordHits_def Let_def q(1,2,3) e using far tip q(4)
    by (simp add: add_def multiplyScalar_def)
  have after: "objects (fst (hitDetection s1)) 0 = enemy0"
    unfolding hitDetection_def q(5) using miss q(3) by (simp add: strike_miss)
  show ?thesis
    unfolding s1_def [symmetric] after
    using p(3,4) q(2) ahead planar ang e by simp
qed

lemma distanceTo_vertical: "\<bar>vy a - vy b\<bar> \<le> distanceTo a b"
proof -
  have "sqrt ((vy a - vy b) * (vy a - vy b)) \<le>
        sqrt ((vx a - vx b) * (vx a - vx b) + (vy a - vy b) * (vy a - vy b)
              + (vz a - vz b) * (vz a - vz b))"
    by (rule real_sqrt_le_mono) (simp add: add_nonneg_nonneg)
  then show ?thesis by (simp add: distanceTo_def real_sqrt_abs2)
qed

text \<open>
  C6, amended. The distance compared with the attack range is the three-dimensional
  distance between the positions of player and enemy, height difference included: an enemy
  is hit exactly when it is the lock target closer than 3.0 in space, or closer in space
  than its range (3.0 for the lock target, else 2.0) and inside the 45 degree cone, or
  closer than 1.5 to the sword tip. When the height difference alone reaches the range,
  only the sword-tip test can still hit.
\<close>

theorem swordHits_spatial_range:
  "(swordHits s e \<longleftrightarrow>
      (targetLocked s \<and> currentTarget s = Some e \<and>
       sqrt ((vx (position (player s)) - vx (position (objects s e))) *
             (vx (position (player s)) - vx (position (objects s e))) +
             (vy (position (player s)) - vy (position (objects s e))) *
             (vy (position (player s)) - vy (position (objects s e))) +
             (vz (position (player s)) - vz (position (objects s e))) *
             (vz (position (player s)) - vz (position (objects s e)))) < 3)
      \<or> (sqrt ((vx (position (player s)) - vx (position (objects s e))) *
                (vx (position (player s)) - vx (position (objects s e))) +
                (vy (position (player s)) - vy (position (objects s e))) *
                (vy (position (player s)) - vy (position (objects s e))) +
                (vz (position (player s)) - vz (position (objects s e))) *
                (vz (position (player s)) - vz (position (objects s e))))
            < (if targetLocked s \<and> currentTarget s = Some e then 3 else 2) \<and>
          angleTo (facing (player s))
            (setY (normalize_v (sub (position (objects s e)) (position (player s)))) 0)
            < pi / 4)
      \<or> distanceTo (position (objects s e))
            (add (multiplyScalar (facing (player s)) 1.5) (position (player s))) < 1.5) \<and>
   ((if targetLocked s \<and> currentTarget s = Some e then 3 else 2)
       \<le> \<bar>vy (position (player s)) - vy (position (objects s e))\<bar> \<longrightarrow>
      (swordHits s e \<longleftrightarrow>
         distanceTo (position (objects s e))
           (add (multiplyScalar (facing (player s)) 1.5) (position (player s))) < 1.5))"
proof -
  have v: "\<bar>vy (position (player s)) - vy (position (objects s e))\<bar>
      \<le> distanceTo (position (player s)) (position (objects s e))"
    by (rule distanceTo_vertical)
  have a: "swordHits s e \<longleftrightarrow>
      (targetLocked s \<and> currentTarget s = Some e \<and>
       distanceTo (position (player s)) (position (objects s e)) < 3)
      \<or> (distanceTo (position (player s)) (position (objects s e))
            < (if targetLocked s \<and> currentTarget s = Some e then 3 else 2) \<and>
          angleTo (facing (player s))
            (setY (normalize_v (sub (position (objects s e)) (position (player s)))) 0)
            < pi / 4)
      \<or> distanceTo (position (objects s e))
            (add (multiplyScalar (facing (player s)) 1.5) (position (player s))) < 1.5"
    unfolding swordHits_def Let_def by auto
  have b: "(if targetLocked s \<and> currentTarget s = Some e then 3 else 2)
       \<le> \<bar>vy (position (player s)) - vy (position (objects s e))\<bar> \<longrightarrow>
      (swordHits s e \<longleftrightarrow>
         distanceTo (position (objects s e))
           (add (multiplyScalar (facing (player s)) 1.5) (position (player s))) < 1.5)"
    unfolding a using v by (auto split: if_splits)
  show ?thesis
    using a b unfolding distanceTo_def [of "position (player s)" "position (objects s e)"]
    by blast
qed

text \<open>
  C6, as stated, fails: a player in the air at height 3.4 with an enemy at height 1 one
  unit straight ahead in the plane. The planar distance is 1 and the angle is 0, but the
  distance the code compares is 2.6; the enemy is not hit and keeps its health, while the
  same enemy at the player's height is hit.
\<close>

theorem swordHits_spatial_range_counterexample:
  "sqrt ((vx (position (player engine_above)) - vx (position (objects engine_above 0))) *
         (vx (position (player engine_above)) - vx (position (objects engine_above 0))) +
         (vz (position (player engine_above)) - vz (position (objects engine_above 0))) *
         (vz (position (player engine_above)) - vz (position (objects engine_above 0)))) = 1 \<and>
   angleTo (facing (player engine_above))
     (setY (normalize_v (sub (position (objects engine_above 0))
                             (position (player engine_above)))) 0) = 0 \<and>
   \<not> swordHits engine_above 0 \<and>
   health (objects (fst (hitDetection engine_above)) 0) = 2 \<and>
   swordHits engine0 0"
proof -
  have p: "position (player engine_above) = Vector3 5 (17 / 5) 5"
    "position (objects engine_above 0) = Vector3 5 1 6"
    "facing (player engine_above) = Vector3 0 0 1"
    "\<not> targetLocked engine_above" "enemies engine_above = [0]"
    "health (objects engine_above 0) = 2"
    by (simp_all add: engine_above_def engine0_def player0_def enemy0_def)
  have planar: "sqrt ((vx (position (player engine_above)) - vx (position (objects engine_above 0))) *
         (vx (position (player engine_above)) - vx (position (objects engine_above 0))) +
         (vz (position (player engine_above)) - vz (position (objects engine_above 0))) *
         (vz (position (player engine_above)) - vz (position (objects engine_above 0)))) = 1"
    unfolding p by simp
  have l: "sqrt (169 / 25) = 13 / 5" "sqrt (25 / 169) = 5 / 13"
    by (simp_all add: real_sqrt_divide sqrt_169 sqrt_25)
  have to: "setY (normalize_v (sub (Vector3 5 1 6) (Vector3 5 (17 / 5) 5))) 0
      = Vector3 0 0 (5 / 13)"
    by (simp add: sub_def normalize_v_def length_v_def setY_def l)
  have ang: "angleTo (facing (player engine_above))
     (setY (normalize_v (sub (position (objects engine_above 0))
                             (position (player engine_above)))) 0) = 0"
    unfolding p to by (simp add: angleTo_def lengthSq_def dot_def l)
  have far: "\<not> distanceTo (Vector3 5 (17 / 5) 5) (Vector3 5 1 6) < 2"
    by (simp add: distanceTo_def l)
  have tip: "\<not> distanceTo (Vector3 5 1 6) (Vector3 5 (17 / 5) (13 / 2)) < 3 / 2"
  proof -
    have "distanceTo (Vector3 5 1 6) (Vector3 5 (17 / 5) (13 / 2)) = sqrt (601 / 100)"
      by (simp add: distanceTo_def)
    moreover have "\<not> sqrt (601 / 100) < 3 / 2"
      by (subst sqrt_less_iff) simp_all
    ultimately show ?thesis by simp
  qed
  have miss: "\<not> swordHits engine_above 0"
    unfolding swordHits_def Let_def p(1,2,3) using far tip p(4)
    by (simp add: add_def multiplyScalar_def)
  have same: "health (objects (fst (hitDetection engine_above)) 0) = 2"
    unfolding hitDetection_def p(5) using miss p(6) by (simp add: strike_miss)
  have hit: "swordHits engine0 0"
    by (simp add: swordHits_def Let_def engine0_def player0_def enemy0_def distanceTo_def
        add_def multiplyScalar_def real_sqrt_divide)
  from planar ang miss same hit show ?thesis by blast
qed

theorem swordHits_spatial_range_witness:
  "(2 :: real) \<le> \<bar>vy (position (player engine_above)) - vy (position (objects engine_above 0))\<bar> \<and>
   (swordHits engine_above 0 \<longleftrightarrow>
      distanceTo (position (objects engine_above 0))
        (add (multiplyScalar (facing (player engine_above)) 1.5)
             (position (player engine_above))) < 1.5)"
proof -
  have p: "vy (position (player engine_above)) = 17 / 5"
    "vy (position (objects engine_above 0)) = 1" "\<not> targetLocked engine_above"
    by (simp_all add: engine_above_def engine0_def player0_def enemy0_def)
  have v: "(2 :: real) \<le> \<bar>vy (position (player engine_above)) - vy (position (objects engine_above 0))\<bar>"
    unfolding p by simp
  with swordHits_spatial_range [of engine_above 0, THEN conjunct2] p(3)
  show ?thesis by simp
qed

section \<open>A set lock refers to an enemy of the array\<close>

text \<open>
  Every operation of the model keeps the property that a set lock has a target and the
  target is in the enemy array. The world starts without a lock, so in the running game
  the lock never refers to a removed enemy, and the enemy array is not empty while the
  lock is set.
\<close>

lemma findClosest_member:
  "fst (findClosest s es (None, None)) = Some t \<Longrightarrow> t \<in> set es"
  using findClosest_result [of None None s es] by simp

lemma movementBasis_lock:
  "currentTarget (snd (snd (movementBasis s))) = currentTarget s"
  "enemies (snd (snd (movementBasis s))) = enemies s"
  by (simp_all add: movementBasis_def Let_def split: option.splits bool.splits)

lemma phases_lock:
  "targetLocked (movePlayer s d deltaTime) = targetLocked s"
  "currentTarget (movePlayer s d deltaTime) = currentTarget s"
  "enemies (movePlayer s d deltaTime) = enemies s"
  "targetLocked (applyJump s) = targetLocked s"
  "currentTarget (applyJump s) = currentTarget s"
  "enemies (applyJump s) = enemies s"
  "targetLocked (applyGravity s deltaTime) = targetLocked s"
  "currentTarget (applyGravity s deltaTime) = currentTarget s"
  "enemies (applyGravity s deltaTime) = enemies s"
  by (simp_all add: movePlayer_def applyJump_def applyGravity_def Let_def)

lemma update_lock_frame:
  "targetLocked (update s deltaTime) = targetLocked s"
  "currentTarget (update s deltaTime) = currentTarget s"
  "enemies (update s deltaTime) = enemies s"
  unfolding update_unfold
  by (simp_all add: phases_lock movementBasis_lock movementBasis_state)

lemma lock_target_live:
  assumes "targetLocked s \<longrightarrow> (\<exists>t. currentTarget s = Some t \<and> t \<in> set (enemies s))"
  shows "targetLocked (toggleTargetLock s) \<longrightarrow>
           (\<exists>t. currentTarget (toggleTargetLock s) = Some t \<and>
                t \<in> set (enemies (toggleTargetLock s)))"
    and "targetLocked (removeEnemy e s) \<longrightarrow>
           (\<exists>t. currentTarget (removeEnemy e s) = Some t \<and> t \<in> set (enemies (removeEnemy e s)))"
    and "targetLocked (fst (attack now s)) \<longrightarrow>
           (\<exists>t. currentTarget (fst (attack now s)) = Some t \<and>
                t \<in> set (enemies (fst (attack now s))))"
    and "targetLocked (fst (hitDetection s)) \<longrightarrow>
           (\<exists>t. currentTarget (fst (hitDetection s)) = Some t \<and>
                t \<in> set (enemies (fst (hitDetection s))))"
    and "targetLocked (update s deltaTime) \<longrightarrow>
           (\<exists>t. currentTarget (update s deltaTime) = Some t \<and>
                t \<in> set (enemies (update s deltaTime)))"
    and "targetLocked (takeDamage fallOver s amount) \<longrightarrow>
           (\<exists>t. currentTarget (takeDamage fallOver s amount) = Some t \<and>
                t \<in> set (enemies (takeDamage fallOver s amount)))"
proof -
  show "targetLocked (toggleTargetLock s) \<longrightarrow>
           (\<exists>t. currentTarget (toggleTargetLock s) = Some t \<and>
                t \<in> set (enemies (toggleTargetLock s)))"
    using assms findClosest_member [of s "enemies s"]
    by (auto simp: toggleTargetLock_def Let_def split: option.splits)
  show "targetLocked (removeEnemy e s) \<longrightarrow>
           (\<exists>t. currentTarget (removeEnemy e s) = Some t \<and> t \<in> set (enemies (removeEnemy e s)))"
    using assms by (auto simp: removeEnemy_def Let_def)
  show "targetLocked (fst (attack now s)) \<longrightarrow>
           (\<exists>t. currentTarget (fst (attack now s)) = Some t \<and>
                t \<in> set (enemies (fst (attack now s))))"
    using assms by (simp add: attack_frame)
  show "targetLocked (fst (hitDetection s)) \<longrightarrow>
           (\<exists>t. currentTarget (fst (hitDetection s)) = Some t \<and>
                t \<in> set (enemies (fst (hitDetection s))))"
    using assms strikeAll_frame [of "enemies s" s] by (simp add: hitDetection_def)
  show "targetLocked (update s deltaTime) \<longrightarrow>
           (\<exists>t. currentTarget (update s deltaTime) = Some t \<and>
                t \<in> set (enemies (update s deltaTime)))"
    using assms by (simp add: update_lock_frame)
  show "targetLocked (takeDamage fallOver s amount) \<longrightarrow>
           (\<exists>t. currentTarget (takeDamage fallOver s amount) = Some t \<and>
                t \<in> set (enemies (takeDamage fallOver s amount)))"
    using assms by (simp add: takeDamage_def Let_def)
qed

section \<open>The end of the swing\<close>

text \<open>The attacking flag stays set until an animation frame comes 400 ms or more after the
  start of the swing; that frame clears it and schedules nothing further.\<close>

lemma animateSwordSwing_done:
  "isAttacking (player s) \<Longrightarrow> startTime + 400 \<le> timestamp \<Longrightarrow>
   animateSwordSwing startTime timestamp s = (s\<lparr>player := (player s)\<lparr>isAttacking := False\<rparr>\<rparr>, [])"
  by (simp add: animateSwordSwing_def Let_def)

lemma animateSwordSwing_running:
  "isAttacking (player s) \<Longrightarrow> timestamp < startTime + 400 \<Longrightarrow>
   animateSwordSwing startTime timestamp s = (s, [RequestAnimationFrame (AnimateSwordSwing startTime)])"
  by (simp add: animateSwordSwing_def Let_def)

end
